theory Spec2Isabelle
  imports Complex_Main "HOL-Library.Char_ord" "HOL-Library.List_Lexorder"
    "HOL-Library.Product_Lexorder"
begin

section \<open>Floating-point numbers\<close>

text \<open>
  A Python \<open>float\<close> is a number of the IEEE 754 binary64 format. A finite float is
  modelled by the real number that it stands for, and an arithmetic operation on floats
  by the exact operation followed by \<open>round_double\<close>, the rounding to the nearest float
  with ties going to the even mantissa. Infinities and NaN have no counterpart: a result
  of magnitude \<open>2^1024 - 2^970\<close> or more is outside the model. The similarity scores lie
  between 0 and 1, far from that range.

  \<open>binade x\<close> is the exponent \<open>e\<close> with \<open>2^e \<le> |x| < 2^(e+1)\<close>, and -1022 for the
  subnormal numbers and zero; two neighbouring floats of that binade are \<open>ulp x\<close> apart.
\<close>

fun binade_up :: "nat \<Rightarrow> real \<Rightarrow> int" where
  "binade_up 0 x = 0"
| "binade_up (Suc n) x = (if x < 2 then 0 else binade_up n (x / 2) + 1)"

fun binade_down :: "nat \<Rightarrow> real \<Rightarrow> int" where
  "binade_down 0 x = 0"
| "binade_down (Suc n) x = (if 1 \<le> x then 0 else binade_down n (2 * x) - 1)"

definition binade :: "real \<Rightarrow> int" where
  "binade x = (if 1 \<le> \<bar>x\<bar> then binade_up 1024 \<bar>x\<bar> else binade_down 1022 \<bar>x\<bar>)"

definition ulp :: "real \<Rightarrow> real" where
  "ulp x = (let k = binade x - 52 in if 0 \<le> k then 2 ^ nat k else 1 / 2 ^ nat (- k))"

definition round_half_even :: "real \<Rightarrow> int" where
  "round_half_even r =
     (let f = \<lfloor>r\<rfloor>; d = r - of_int f
      in if d < 1 / 2 then f else if 1 / 2 < d then f + 1 else if even f then f else f + 1)"

definition round_double :: "real \<Rightarrow> real" where
  "round_double x = of_int (round_half_even (x / ulp x)) * ulp x"

section \<open>Text primitives\<close>



definition is_digit :: "char \<Rightarrow> bool" where
  "is_digit c \<longleftrightarrow> c \<in> set ''0123456789''"

definition lower_char :: "char \<Rightarrow> char" where
  "lower_char c =
     (case map_of (zip ''ABCDEFGHIJKLMNOPQRSTUVWXYZ'' ''abcdefghijklmnopqrstuvwxyz'') c of
        Some d \<Rightarrow> d
      | None \<Rightarrow> c)"

text \<open>\<open>str.lower()\<close>\<close>

definition lower :: "string \<Rightarrow> string" where
  "lower s = map lower_char s"

text \<open>\<open>s.endswith(t)\<close>\<close>

definition endswith :: "string \<Rightarrow> string \<Rightarrow> bool" where
  "endswith s t \<longleftrightarrow> length t \<le> length s \<and> drop (length s - length t) s = t"

section \<open>Artwork URL expander\<close>

definition PROBE_SIZES :: "string list" where
  "PROBE_SIZES =
     [''100000x100000'', ''20000x20000'', ''10000x10000'', ''8000x8000'', ''6000x6000'',
      ''5000x5000'', ''4000x4000'', ''3000x3000'', ''2500x2500'', ''2000x2000'',
      ''1500x1500'', ''1200x1200'', ''1000x1000'', ''800x800'', ''600x600'']"

text \<open>
  The regular expression of \<open>build_upscaled_urls\<close>,
  \<^verbatim>\<open>/(\d{2,5}x\d{2,5})(bb)?(-\d+)?\.(jpg|png)$\<close> with \<open>re.IGNORECASE\<close>, is matched by
  \<open>re.search\<close>. No part of the pattern after its first character matches a slash, and
  \<open>$\<close> matches at the end of the string or before a line feed that ends the string, so a
  match starts at the last slash of the string without that line feed. Every repetition
  of the pattern is followed by a character outside its class, so the groups are the
  maximal runs.

  \<open>match_size_segment\<close> matches the pattern without its slash against the whole text
  after the last slash and returns the groups 1 to 4 (an absent optional group is the
  empty string, as \<open>m.group(n) or ""\<close> has it).
\<close>

definition match_size_segment :: "string \<Rightarrow> (string \<times> string \<times> string \<times> string) option" where
  "match_size_segment seg =
     (let d1 = takeWhile is_digit seg; r1 = dropWhile is_digit seg in
      if length d1 < 2 \<or> 5 < length d1 then None
      else case r1 of
        [] \<Rightarrow> None
      | x # r2 \<Rightarrow>
          if lower_char x \<noteq> CHR ''x'' then None
          else
            let d2 = takeWhile is_digit r2; r3 = dropWhile is_digit r2 in
            if length d2 < 2 \<or> 5 < length d2 then None
            else
              let bb = (if lower (take 2 r3) = ''bb'' then take 2 r3 else []);
                  r4 = drop (length bb) r3;
                  q = (case r4 of
                         [] \<Rightarrow> []
                       | c # t \<Rightarrow>
                           if c = CHR ''-'' \<and> takeWhile is_digit t \<noteq> []
                           then c # takeWhile is_digit t else []);
                  r5 = drop (length q) r4
              in case r5 of
                   [] \<Rightarrow> None
                 | c # ext \<Rightarrow>
                     if c = CHR ''.'' \<and> (lower ext = ''jpg'' \<or> lower ext = ''png'')
                     then Some (d1 @ x # d2, bb, q, ext)
                     else None)"

text \<open>
  \<open>search_size_token\<close> is \<open>re.search\<close> with that pattern: \<open>None\<close> when nothing matches,
  else the text before the matched slash (\<open>artwork_url[: m.start(1) - 1]\<close>) and the four
  groups.
\<close>

definition search_size_token ::
  "string \<Rightarrow> (string \<times> string \<times> string \<times> string \<times> string) option" where
  "search_size_token s =
     (let body = (if s \<noteq> [] \<and> last s = CHR 0x0A then butlast s else s) in
      if CHR ''/'' \<notin> set body then None
      else
        let seg = rev (takeWhile (\<lambda>c. c \<noteq> CHR ''/'') (rev body));
            prefix = take (length body - length seg - 1) body
        in case match_size_segment seg of
             None \<Rightarrow> None
           | Some g \<Rightarrow> Some (prefix, g))"

text \<open>The fallback of \<open>build_upscaled_urls\<close>: attach size blocks to the whole URL.\<close>

definition attach_size_blocks :: "string \<Rightarrow> string list" where
  "attach_size_blocks artwork_url =
     (let ext = (if endswith (lower artwork_url) ''.png'' then ''png'' else ''jpg'')
      in map (\<lambda>sz. artwork_url @ ''/'' @ sz @ ''.'' @ ext) PROBE_SIZES)"

definition build_upscaled_urls :: "string \<Rightarrow> string list" where
  "build_upscaled_urls artwork_url =
     (case search_size_token artwork_url of
        None \<Rightarrow> attach_size_blocks artwork_url
      | Some (prefix, sz0, bb, q, ext) \<Rightarrow>
          map (\<lambda>sz. prefix @ ''/'' @ sz @ bb @ q @ ''.'' @ ext) PROBE_SIZES)"



text \<open>Decimal value of a digit string, and the two numbers of a size \<open><w>x<h>\<close>.\<close>

definition nat_of_digits :: "string \<Rightarrow> nat" where
  "nat_of_digits ds = foldl (\<lambda>n c. 10 * n + (of_char c - 48)) 0 ds"

definition size_width :: "string \<Rightarrow> nat" where
  "size_width sz = nat_of_digits (takeWhile is_digit sz)"

definition size_height :: "string \<Rightarrow> nat" where
  "size_height sz = nat_of_digits (drop 1 (dropWhile is_digit sz))"

section \<open>Exceptions\<close>

text \<open>
  The exceptions that the program meets, by class, with the text that \<open>str(e)\<close> gives.
  \<open>Timeout\<close>, \<open>ConnectionError\<close> and \<open>HTTPError\<close> are the classes of \<open>requests\<close>, and
  \<open>RequestException\<close> stands for every other subclass of it. \<open>PermissionError\<close> is kept
  apart from the other subclasses of \<open>OSError\<close>, and \<open>OtherException\<close> stands for the
  remaining subclasses of \<open>Exception\<close>. \<open>KeyboardInterrupt\<close> is not a subclass of
  \<open>Exception\<close>.
\<close>

datatype exn_class =
  Timeout | ConnectionError | HTTPError | RequestException | ValueError | OverflowError
  | PermissionError | OSError | OtherException | KeyboardInterrupt

datatype exn = Exn exn_class string

fun exn_text :: "exn \<Rightarrow> string" where
  "exn_text (Exn c t) = t"

text \<open>\<open>except (requests.Timeout, requests.ConnectionError)\<close>\<close>

fun is_timeout_or_connection :: "exn \<Rightarrow> bool" where
  "is_timeout_or_connection (Exn c t) \<longleftrightarrow> c = Timeout \<or> c = ConnectionError"

text \<open>\<open>except requests.RequestException\<close>\<close>

fun is_request_exception :: "exn \<Rightarrow> bool" where
  "is_request_exception (Exn c t) \<longleftrightarrow>
     c = Timeout \<or> c = ConnectionError \<or> c = HTTPError \<or> c = RequestException"

text \<open>\<open>except Exception\<close>\<close>

fun is_exception :: "exn \<Rightarrow> bool" where
  "is_exception (Exn c t) \<longleftrightarrow> c \<noteq> KeyboardInterrupt"

text \<open>
  The exceptions of the file system, with the path in quotes as \<open>repr\<close> writes a path that
  needs no escape.
\<close>

definition quoted :: "string \<Rightarrow> string" where
  "quoted path = [CHR 0x27] @ path @ [CHR 0x27]"

definition permission_denied :: "string \<Rightarrow> exn" where
  "permission_denied path = Exn PermissionError (''[Errno 13] Permission denied: '' @ quoted path)"

definition no_such_file :: "string \<Rightarrow> exn" where
  "no_such_file path = Exn OSError (''[Errno 2] No such file or directory: '' @ quoted path)"

definition not_a_directory :: "string \<Rightarrow> exn" where
  "not_a_directory path = Exn OSError (''[Errno 20] Not a directory: '' @ quoted path)"

definition is_a_directory :: "string \<Rightarrow> exn" where
  "is_a_directory path = Exn OSError (''[Errno 21] Is a directory: '' @ quoted path)"

section \<open>Library scanner\<close>

text \<open>
  The part of the file system under the library root. A node is something that is not a
  directory (a file, with its contents) or a directory with its entries by name, in the
  order in which the system lists them. \<open>Dir\<close> is a directory on which the process has
  every right; \<open>Restricted\<close> is a directory with the rights given: \<open>readable\<close> lets its
  entries be listed, \<open>searchable\<close> lets a path go through it, so that an entry can be
  examined or opened, and \<open>writable\<close> lets entries be created, replaced and removed.
  \<open>Path.is_dir()\<close> follows symbolic links, so a link counts as what it points to.
\<close>

record access =
  readable :: bool
  writable :: bool
  searchable :: bool

datatype fsnode =
  File string
  | Dir "(string \<times> fsnode) list"
  | Restricted access "(string \<times> fsnode) list"

definition full_access :: access where
  "full_access = \<lparr>readable = True, writable = True, searchable = True\<rparr>"

fun rights :: "fsnode \<Rightarrow> access" where
  "rights (Dir es) = full_access"
| "rights (Restricted a es) = a"
| "rights (File c) = full_access"

fun entries :: "fsnode \<Rightarrow> (string \<times> fsnode) list" where
  "entries (Dir es) = es"
| "entries (Restricted a es) = es"
| "entries (File c) = []"

fun is_directory :: "fsnode \<Rightarrow> bool" where
  "is_directory (Dir es) = True"
| "is_directory (Restricted a es) = True"
| "is_directory (File c) = False"

text \<open>
  What \<open>os.stat\<close> makes of a path: nothing is there (\<open>ENOENT\<close>, \<open>ENOTDIR\<close>), a directory on
  the way is not searchable (\<open>EACCES\<close>), or a node is found.
\<close>

datatype stat_result = NoEntry | NoAccess | Found fsnode

text \<open>The entry \<open>name\<close> of a node, and a path of several names under a node.\<close>

definition stat_child :: "fsnode \<Rightarrow> string \<Rightarrow> stat_result" where
  "stat_child n name =
     (if \<not> is_directory n then NoEntry
      else if \<not> searchable (rights n) then NoAccess
      else case map_of (entries n) name of None \<Rightarrow> NoEntry | Some m \<Rightarrow> Found m)"

fun stat_path :: "fsnode \<Rightarrow> string list \<Rightarrow> stat_result" where
  "stat_path n [] = Found n"
| "stat_path n (name # names) =
     (case stat_child n name of
        Found m \<Rightarrow> stat_path m names
      | NoEntry \<Rightarrow> NoEntry
      | NoAccess \<Rightarrow> NoAccess)"

text \<open>
  \<open>Path.exists()\<close> and \<open>Path.is_dir()\<close> return \<open>False\<close> when nothing is there and raise
  \<open>PermissionError\<close> when the path cannot be examined.
\<close>

fun path_exists :: "string \<Rightarrow> stat_result \<Rightarrow> exn + bool" where
  "path_exists path NoEntry = Inr False"
| "path_exists path NoAccess = Inl (permission_denied path)"
| "path_exists path (Found n) = Inr True"

fun is_dir :: "string \<Rightarrow> stat_result \<Rightarrow> exn + bool" where
  "is_dir path NoEntry = Inr False"
| "is_dir path NoAccess = Inl (permission_denied path)"
| "is_dir path (Found n) = Inr (is_directory n)"

text \<open>\<open>path / name\<close>, as a text.\<close>

definition join :: "string \<Rightarrow> string \<Rightarrow> string" where
  "join path name = (if path = ''/'' then [] else path) @ ''/'' @ name"

text \<open>
  \<open>sorted([p for p in d.iterdir() if p.is_dir()])\<close>: the entries of \<open>d\<close> that are
  directories, in the order of their paths. \<open>iterdir\<close> raises when \<open>d\<close> is not readable or
  not a directory, and \<open>is_dir\<close> raises on the first entry listed when \<open>d\<close> is not
  searchable. The paths share their parent, so they are ordered by their last component;
  strings are ordered by code point, which is the order of their UTF-8 bytes.
\<close>

definition sorted_subdirs :: "string \<Rightarrow> fsnode \<Rightarrow> exn + (string \<times> fsnode) list" where
  "sorted_subdirs path d =
     (if \<not> is_directory d then Inl (not_a_directory path)
      else if \<not> readable (rights d) then Inl (permission_denied path)
      else if \<not> searchable (rights d) \<and> entries d \<noteq> []
      then Inl (permission_denied (join path (fst (hd (entries d)))))
      else Inr (sort_key fst (filter (\<lambda>(name, p). is_directory p) (entries d))))"

text \<open>
  \<open>find_album_dirs\<close> yields the album directories; a yielded path is given by its two
  components under the root, with the node it leads to. \<open>main\<close> collects what is yielded
  in a list, so an exception on the way leaves no list. \<open>albums_of\<close> is the loop over the
  artist directories.
\<close>

fun albums_of ::
  "string \<Rightarrow> (string \<times> fsnode) list \<Rightarrow> exn + ((string \<times> string) \<times> fsnode) list" where
  "albums_of path [] = Inr []"
| "albums_of path ((artist, a) # artists) =
     (case sorted_subdirs (join path artist) a of
        Inl e \<Rightarrow> Inl e
      | Inr albums \<Rightarrow>
          (case albums_of path artists of
             Inl e \<Rightarrow> Inl e
           | Inr others \<Rightarrow> Inr (map (\<lambda>(album, d). ((artist, album), d)) albums @ others)))"

definition find_album_dirs ::
  "string \<Rightarrow> stat_result \<Rightarrow> exn + ((string \<times> string) \<times> fsnode) list" where
  "find_album_dirs path rootp =
     (case is_dir path rootp of
        Inl e \<Rightarrow> Inl e
      | Inr False \<Rightarrow> Inr []
      | Inr True \<Rightarrow>
          (case rootp of
             Found r \<Rightarrow>
               (case sorted_subdirs path r of
                  Inl e \<Rightarrow> Inl e
                | Inr artists \<Rightarrow> albums_of path artists)
           | NoEntry \<Rightarrow> Inr []
           | NoAccess \<Rightarrow> Inr []))"



section \<open>Text matcher\<close>

text \<open>
  White space as \<open>str.strip()\<close> and the class \<open>\s\<close> have it, and the word characters of
  the class \<open>\w\<close>, both in the ASCII range: \<open>normalize_text\<close> and \<open>similarity\<close> model the
  program on ASCII strings.
\<close>

definition is_space :: "char \<Rightarrow> bool" where
  "is_space c \<longleftrightarrow>
     c \<in> set [CHR 0x09, CHR 0x0A, CHR 0x0B, CHR 0x0C, CHR 0x0D,
                CHR 0x1C, CHR 0x1D, CHR 0x1E, CHR 0x1F, CHR 0x20]"

definition is_word :: "char \<Rightarrow> bool" where
  "is_word c \<longleftrightarrow>
     c \<in> set ''abcdefghijklmnopqrstuvwxyzABCDEFGHIJKLMNOPQRSTUVWXYZ0123456789_''"

text \<open>\<open>s.strip()\<close>\<close>

definition strip :: "string \<Rightarrow> string" where
  "strip s = rev (dropWhile is_space (rev (dropWhile is_space s)))"

text \<open>\<open>re.sub(r"\s+", " ", s)\<close>: every maximal run of white space becomes one space.\<close>

function collapse_spaces :: "string \<Rightarrow> string" where
  "collapse_spaces [] = []"
| "collapse_spaces (c # s) =
     (if is_space c then CHR 0x20 # collapse_spaces (dropWhile is_space s)
      else c # collapse_spaces s)"
  by pat_completeness auto
termination
  by (relation "measure length") (auto simp: length_dropWhile_le less_Suc_eq_le)

text \<open>\<open>re.sub(r"[^\w\s]", "", s)\<close>: what is neither a word character nor white space goes.\<close>

definition strip_punctuation :: "string \<Rightarrow> string" where
  "strip_punctuation s = filter (\<lambda>c. is_word c \<or> is_space c) s"

definition normalize_text :: "string \<Rightarrow> string" where
  "normalize_text s = strip_punctuation (collapse_spaces (strip (lower s)))"

subsection \<open>The sequence comparison of the standard library\<close>

text \<open>
  \<open>similarity\<close> calls \<open>difflib.SequenceMatcher(None, a, b).ratio()\<close> of the Python standard
  library: no junk predicate, and the automatic junk heuristic left switched on. The
  definitions below follow \<open>Lib/difflib.py\<close> (CPython 3.11). Indices are natural numbers; a
  difference is written so that it is the one of the integers wherever the library
  computes it.

  \<open>__chain_b\<close>: \<open>b2j\<close> maps an element to the ascending positions at which it occurs in
  \<open>b\<close>. With no junk predicate the set of junk elements is empty. When \<open>b\<close> has at least
  200 elements, an element that occurs more than \<open>len(b) // 100 + 1\<close> times is popular and
  is deleted from \<open>b2j\<close>.
\<close>

definition popular :: "string \<Rightarrow> char \<Rightarrow> bool" where
  "popular b elt \<longleftrightarrow> 200 \<le> length b \<and> length b div 100 + 1 < count_list b elt"

definition b2j :: "string \<Rightarrow> char \<Rightarrow> nat list" where
  "b2j b elt = (if popular b elt then [] else filter (\<lambda>j. b ! j = elt) [0..<length b])"

text \<open>
  The inner loop of \<open>find_longest_match\<close>, \<open>for j in b2j.get(a[i], nothing)\<close>. The state is
  the best block so far \<open>(besti, bestj, bestsize)\<close> and the dictionary \<open>newj2len\<close>;
  \<open>j2len\<close> is the dictionary of the row before. \<open>j2len.get(j-1, 0)\<close> is 0 at \<open>j = 0\<close>, the
  key -1 being absent.
\<close>

type_synonym block = "nat \<times> nat \<times> nat"

fun scan_row ::
  "(nat \<rightharpoonup> nat) \<Rightarrow> nat \<Rightarrow> nat \<Rightarrow> nat \<Rightarrow> nat list \<Rightarrow> block \<times> (nat \<rightharpoonup> nat)
     \<Rightarrow> block \<times> (nat \<rightharpoonup> nat)" where
  "scan_row j2len i blo bhi [] st = st"
| "scan_row j2len i blo bhi (j # js) ((besti, bestj, bestsize), newj2len) =
     (if j < blo then scan_row j2len i blo bhi js ((besti, bestj, bestsize), newj2len)
      else if bhi \<le> j then ((besti, bestj, bestsize), newj2len)
      else
        let k = (case (if j = 0 then None else j2len (j - 1)) of None \<Rightarrow> 0 | Some l \<Rightarrow> l) + 1
        in scan_row j2len i blo bhi js
             (if bestsize < k then (Suc i - k, Suc j - k, k) else (besti, bestj, bestsize),
              newj2len(j \<mapsto> k)))"

text \<open>The outer loop, \<open>for i in range(alo, ahi)\<close>.\<close>

fun scan_rows ::
  "string \<Rightarrow> string \<Rightarrow> nat \<Rightarrow> nat \<Rightarrow> nat list \<Rightarrow> block \<times> (nat \<rightharpoonup> nat)
     \<Rightarrow> block \<times> (nat \<rightharpoonup> nat)" where
  "scan_rows a b blo bhi [] st = st"
| "scan_rows a b blo bhi (i # is) (best, j2len) =
     scan_rows a b blo bhi is (scan_row j2len i blo bhi (b2j b (a ! i)) (best, Map.empty))"

text \<open>
  The two loops that extend the block by matching elements that are not junk, first to
  the left, then to the right. The two loops after them extend by junk elements only and
  never run, there being no junk.
\<close>

function extend_left :: "string \<Rightarrow> string \<Rightarrow> nat \<Rightarrow> nat \<Rightarrow> block \<Rightarrow> block" where
  "extend_left a b alo blo (besti, bestj, bestsize) =
     (if alo < besti \<and> blo < bestj \<and> a ! (besti - 1) = b ! (bestj - 1)
      then extend_left a b alo blo (besti - 1, bestj - 1, bestsize + 1)
      else (besti, bestj, bestsize))"
  by pat_completeness auto
termination
  by (relation "measure (\<lambda>(a, b, alo, blo, besti, bestj, bestsize). besti)") auto

declare extend_left.simps [simp del]

function extend_right :: "string \<Rightarrow> string \<Rightarrow> nat \<Rightarrow> nat \<Rightarrow> block \<Rightarrow> block" where
  "extend_right a b ahi bhi (besti, bestj, bestsize) =
     (if besti + bestsize < ahi \<and> bestj + bestsize < bhi \<and>
         a ! (besti + bestsize) = b ! (bestj + bestsize)
      then extend_right a b ahi bhi (besti, bestj, bestsize + 1)
      else (besti, bestj, bestsize))"
  by pat_completeness auto
termination
  by (relation "measure (\<lambda>(a, b, ahi, bhi, besti, bestj, bestsize). ahi - (besti + bestsize))")
     auto

declare extend_right.simps [simp del]

definition find_longest_match :: "string \<Rightarrow> string \<Rightarrow> nat \<Rightarrow> nat \<Rightarrow> nat \<Rightarrow> nat \<Rightarrow> block" where
  "find_longest_match a b alo ahi blo bhi =
     extend_right a b ahi bhi
       (extend_left a b alo blo
          (fst (scan_rows a b blo bhi [alo..<ahi] ((alo, blo, 0), Map.empty))))"

text \<open>
  The block found lies in the range searched. The loop of \<open>get_matching_blocks\<close> ends
  for this reason.
\<close>


lemma scan_row_bounds:
  assumes "scan_row j2len i blo bhi js ((bi, bj, bs), new) = ((bi', bj', bs'), new')"
    and "\<forall>j l. j2len j = Some l \<longrightarrow> l \<le> i - alo"
    and "alo \<le> i"
    and "alo \<le> bi" and "bi + bs \<le> Suc i \<or> (bi = alo \<and> bs = 0)"
    and "\<forall>j l. new j = Some l \<longrightarrow> l \<le> Suc i - alo"
  shows "alo \<le> bi' \<and> (bi' + bs' \<le> Suc i \<or> (bi' = alo \<and> bs' = 0)) \<and>
         (\<forall>j l. new' j = Some l \<longrightarrow> l \<le> Suc i - alo)"
  using assms
proof (induction js arbitrary: bi bj bs new)
  case Nil
  then show ?case by simp
next
  case (Cons j js)
  show ?case
  proof (cases "j < blo")
    case True
    with Cons.prems(1) have "scan_row j2len i blo bhi js ((bi, bj, bs), new) = ((bi', bj', bs'), new')"
      by simp
    from Cons.IH [OF this Cons.prems(2-6)] show ?thesis .
  next
    case False
    note nlo = this
    show ?thesis
    proof (cases "bhi \<le> j")
      case True
      with nlo Cons.prems show ?thesis by simp
    next
      case False
      define k where "k = (case (if j = 0 then None else j2len (j - 1)) of None \<Rightarrow> 0 | Some l \<Rightarrow> l) + 1"
      have "(case (if j = 0 then None else j2len (j - 1)) of None \<Rightarrow> 0 | Some l \<Rightarrow> l) \<le> i - alo"
        using Cons.prems(2) by (auto split: option.splits)
      then have kb: "k \<le> Suc i - alo" "1 \<le> k"
        using Cons.prems(3) by (simp_all add: k_def Suc_diff_le)
      from Cons.prems(1) nlo False
      have run: "scan_row j2len i blo bhi js
             (if bs < k then (Suc i - k, Suc j - k, k) else (bi, bj, bs), new(j \<mapsto> k))
               = ((bi', bj', bs'), new')"
        unfolding k_def by (simp only: scan_row.simps if_False Let_def)
      have new: "\<forall>j' l. (new(j \<mapsto> k)) j' = Some l \<longrightarrow> l \<le> Suc i - alo"
        using Cons.prems(6) kb by auto
      show ?thesis
      proof (cases "bs < k")
        case True
        with run have "scan_row j2len i blo bhi js ((Suc i - k, Suc j - k, k), new(j \<mapsto> k))
               = ((bi', bj', bs'), new')" by simp
        from Cons.IH [OF this Cons.prems(2,3) _ _ new] kb Cons.prems(3)
        show ?thesis by auto
      next
        case False
        with run have "scan_row j2len i blo bhi js ((bi, bj, bs), new(j \<mapsto> k))
               = ((bi', bj', bs'), new')" by simp
        from Cons.IH [OF this Cons.prems(2-5) new] show ?thesis .
      qed
    qed
  qed
qed

lemma scan_rows_bounds:
  assumes "scan_rows a b blo bhi [m..<ahi] ((bi, bj, bs), j2len) = ((bi', bj', bs'), j2len')"
    and "alo \<le> m"
    and "alo \<le> bi" and "bi + bs \<le> m \<or> (bi = alo \<and> bs = 0)"
    and "\<forall>j l. j2len j = Some l \<longrightarrow> l \<le> m - alo"
  shows "alo \<le> bi' \<and> (bi' + bs' \<le> max m ahi \<or> (bi' = alo \<and> bs' = 0))"
  using assms
proof (induction "ahi - m" arbitrary: m bi bj bs j2len)
  case 0
  then show ?case by auto
next
  case (Suc n)
  then have lt: "m < ahi" by simp
  then have upt: "[m..<ahi] = m # [Suc m..<ahi]" by (simp add: upt_conv_Cons)
  obtain ci cj cs new where row:
    "scan_row j2len m blo bhi (b2j b (a ! m)) ((bi, bj, bs), Map.empty) = ((ci, cj, cs), new)"
    by (cases "scan_row j2len m blo bhi (b2j b (a ! m)) ((bi, bj, bs), Map.empty)") auto
  have "bi + bs \<le> Suc m \<or> (bi = alo \<and> bs = 0)"
    using Suc.prems(4) by auto
  from scan_row_bounds [OF row Suc.prems(5) Suc.prems(2) Suc.prems(3) this]
  have pre: "alo \<le> ci" "ci + cs \<le> Suc m \<or> (ci = alo \<and> cs = 0)"
    "\<forall>j l. new j = Some l \<longrightarrow> l \<le> Suc m - alo"
    by simp_all
  from Suc.prems(1) have run:
    "scan_rows a b blo bhi [Suc m..<ahi] ((ci, cj, cs), new) = ((bi', bj', bs'), j2len')"
    unfolding upt by (simp add: row)
  have n: "n = ahi - Suc m" using Suc.hyps(2) by simp
  have am: "alo \<le> Suc m" using Suc.prems(2) by simp
  have "alo \<le> bi' \<and> (bi' + bs' \<le> max (Suc m) ahi \<or> (bi' = alo \<and> bs' = 0))"
    by (rule Suc.hyps(1) [OF n run am pre])
  moreover have "max (Suc m) ahi = max m ahi" using lt by simp
  ultimately show ?case by simp
qed

lemma extend_left_bounds:
  assumes "extend_left a b alo blo (bi, bj, bs) = (bi', bj', bs')" and "alo \<le> bi"
  shows "alo \<le> bi' \<and> bi' + bs' = bi + bs \<and> bs \<le> bs'"
  using assms
proof (induction a b alo blo "(bi, bj, bs)" arbitrary: bi bj bs rule: extend_left.induct)
  case (1 a b alo blo besti bestj bestsize)
  show ?case
  proof (cases "alo < besti \<and> blo < bestj \<and> a ! (besti - 1) = b ! (bestj - 1)")
    case True
    with "1.prems"(1) have "extend_left a b alo blo (besti - 1, bestj - 1, bestsize + 1) = (bi', bj', bs')"
      by (simp add: extend_left.simps [of _ _ _ _ besti bestj bestsize])
    moreover from True have "alo \<le> besti - 1" by arith
    ultimately have "alo \<le> bi' \<and> bi' + bs' = besti - 1 + (bestsize + 1) \<and> bestsize + 1 \<le> bs'"
      by (rule "1.hyps" [OF True])
    with True show ?thesis by simp
  next
    case False
    with "1.prems" show ?thesis
      by (auto simp: extend_left.simps [of _ _ _ _ besti bestj bestsize])
  qed
qed

lemma extend_right_bounds:
  assumes "extend_right a b ahi bhi (bi, bj, bs) = (bi', bj', bs')"
  shows "bi' = bi \<and> bj' = bj \<and> bs \<le> bs' \<and> (bs' = bs \<or> bi + bs' \<le> ahi)"
  using assms
proof (induction a b ahi bhi "(bi, bj, bs)" arbitrary: bi bj bs rule: extend_right.induct)
  case (1 a b ahi bhi besti bestj bestsize)
  show ?case
  proof (cases "besti + bestsize < ahi \<and> bestj + bestsize < bhi \<and>
         a ! (besti + bestsize) = b ! (bestj + bestsize)")
    case True
    with "1.prems"(1) have "extend_right a b ahi bhi (besti, bestj, bestsize + 1) = (bi', bj', bs')"
      by (simp add: extend_right.simps [of _ _ _ _ besti bestj bestsize])
    from "1.hyps" [OF True this] True show ?thesis by auto
  next
    case False
    with "1.prems" show ?thesis
      by (auto simp: extend_right.simps [of _ _ _ _ besti bestj bestsize])
  qed
qed

lemma find_longest_match_bounds:
  assumes "find_longest_match a b alo ahi blo bhi = (i, j, k)"
  shows "alo \<le> i \<and> (k \<noteq> 0 \<longrightarrow> i + k \<le> ahi)"
proof -
  obtain si sj ss m where scan:
    "scan_rows a b blo bhi [alo..<ahi] ((alo, blo, 0), Map.empty) = ((si, sj, ss), m)"
    by (cases "scan_rows a b blo bhi [alo..<ahi] ((alo, blo, 0), Map.empty)") auto
  from scan_rows_bounds [OF scan, of alo]
  have s: "alo \<le> si" "si + ss \<le> max alo ahi \<or> (si = alo \<and> ss = 0)" by simp_all
  obtain li lj ls where left: "extend_left a b alo blo (si, sj, ss) = (li, lj, ls)"
    by (cases "extend_left a b alo blo (si, sj, ss)") auto
  from extend_left_bounds [OF left s(1)]
  have l: "alo \<le> li" "li + ls = si + ss" "ss \<le> ls" by simp_all
  from assms have right: "extend_right a b ahi bhi (li, lj, ls) = (i, j, k)"
    by (simp add: find_longest_match_def scan left)
  from extend_right_bounds [OF right]
  have r: "i = li" "ls \<le> k" "k = ls \<or> li + k \<le> ahi" by simp_all
  show ?thesis
  proof (intro conjI impI)
    show "alo \<le> i" using l r by simp
    assume k: "k \<noteq> 0"
    show "i + k \<le> ahi"
    proof (cases "k = ls")
      case False
      with r show ?thesis by simp
    next
      case True
      with k have "ls \<noteq> 0" by simp
      have "alo < ahi"
      proof (rule ccontr)
        assume "\<not> alo < ahi"
        then have "[alo..<ahi] = []" by simp
        with scan have "si = alo" "ss = 0" by simp_all
        with l have "ls = 0" by simp
        with \<open>ls \<noteq> 0\<close> show False by simp
      qed
      have "si + ss \<le> ahi"
      proof (cases "si + ss \<le> max alo ahi")
        case True
        with \<open>alo < ahi\<close> show ?thesis by simp
      next
        case False
        with s have "si = alo" "ss = 0" by simp_all
        with l \<open>ls \<noteq> 0\<close> show ?thesis by simp
      qed
      with l r True show ?thesis by simp
    qed
  qed
qed

text \<open>
  The loop of \<open>get_matching_blocks\<close>, \<open>while queue\<close>. \<open>queue.pop()\<close> takes the entry
  appended last, which is the head of the list here.
\<close>

function collect_blocks ::
  "string \<Rightarrow> string \<Rightarrow> (nat \<times> nat \<times> nat \<times> nat) list \<Rightarrow> block list \<Rightarrow> block list" where
  "collect_blocks a b [] matching_blocks = matching_blocks"
| "collect_blocks a b ((alo, ahi, blo, bhi) # queue) matching_blocks =
     (case find_longest_match a b alo ahi blo bhi of
        (i, j, k) \<Rightarrow>
          if k \<noteq> 0
          then collect_blocks a b
                 ((if i + k < ahi \<and> j + k < bhi then [(i + k, ahi, j + k, bhi)] else []) @
                  (if alo < i \<and> blo < j then [(alo, i, blo, j)] else []) @ queue)
                 (matching_blocks @ [(i, j, k)])
          else collect_blocks a b queue matching_blocks)"
  by pat_completeness auto
termination
proof (relation "measure (\<lambda>(a, b, queue, acc).
          sum_list (map (\<lambda>(alo, ahi, blo, bhi). 2 * (ahi - alo) + 1) queue))", goal_cases)
  case 1
  show ?case by simp
next
  case (2 a b alo ahi blo bhi queue matching_blocks x y xa ya)
  then have "find_longest_match a b alo ahi blo bhi = (x, xa, ya)" and "ya \<noteq> 0" by simp_all
  from find_longest_match_bounds [OF this(1)] this(2)
  have "alo \<le> x" "x + ya \<le> ahi" "0 < ya" by simp_all
  then show ?case by auto
next
  case 3
  then show ?case by simp
qed

text \<open>
  The rest of \<open>get_matching_blocks\<close>: the blocks are sorted, adjacent blocks are merged by
  the loop \<open>for i2, j2, k2 in matching_blocks\<close>, whose state is \<open>(i1, j1, k1)\<close> and the
  list \<open>non_adjacent\<close>, and the dummy block \<open>(la, lb, 0)\<close> is appended.
\<close>

fun merge_adjacent :: "block \<Rightarrow> block list \<Rightarrow> block list \<Rightarrow> block list" where
  "merge_adjacent (i1, j1, k1) [] non_adjacent =
     (if k1 \<noteq> 0 then non_adjacent @ [(i1, j1, k1)] else non_adjacent)"
| "merge_adjacent (i1, j1, k1) ((i2, j2, k2) # rest) non_adjacent =
     (if i1 + k1 = i2 \<and> j1 + k1 = j2 then merge_adjacent (i1, j1, k1 + k2) rest non_adjacent
      else merge_adjacent (i2, j2, k2) rest
             (if k1 \<noteq> 0 then non_adjacent @ [(i1, j1, k1)] else non_adjacent))"

definition get_matching_blocks :: "string \<Rightarrow> string \<Rightarrow> block list" where
  "get_matching_blocks a b =
     merge_adjacent (0, 0, 0)
       (sort (collect_blocks a b [(0, length a, 0, length b)] [])) []
     @ [(length a, length b, 0)]"

text \<open>
  \<open>ratio\<close> with \<open>_calculate_ratio\<close>, \<open>2.0 * matches / length\<close>: twice the number of
  matched elements over the number of elements of both sequences, and 1.0 when both are
  empty. The product is a float without rounding (the lengths of strings are far below
  \<open>2^52\<close>), and the quotient is rounded.
\<close>

definition ratio :: "string \<Rightarrow> string \<Rightarrow> real" where
  "ratio a b =
     (let matches = sum_list (map (\<lambda>(i, j, k). k) (get_matching_blocks a b));
          len = length a + length b
      in if len \<noteq> 0 then round_double (2 * real matches / real len) else 1)"

definition similarity :: "string \<Rightarrow> string \<Rightarrow> real" where
  "similarity a b = ratio (normalize_text a) (normalize_text b)"

text \<open>
  For the proofs: the number of consecutive positions of \<open>s\<close>, ending at position \<open>i\<close>,
  whose element is not popular.
\<close>

fun clean_run :: "string \<Rightarrow> nat \<Rightarrow> nat" where
  "clean_run s 0 = (if popular s (s ! 0) then 0 else 1)"
| "clean_run s (Suc i) = (if popular s (s ! Suc i) then 0 else Suc (clean_run s i))"



section \<open>Match selector\<close>

text \<open>
  A record of the search results, with the keys that the program reads. A key is absent
  (\<open>None\<close>) or holds a string, as the search service gives them.
\<close>

record catalog_record =
  collectionType :: "string option"
  wrapperType :: "string option"
  collectionName :: "string option"
  artistName :: "string option"
  artworkUrl100 :: "string option"

text \<open>
  The record chosen, with the three values that \<open>best_album_match\<close> stores in it under
  \<open>_score\<close>, \<open>_alb_score\<close> and \<open>_art_score\<close>.
\<close>

record scored_record =
  rec :: catalog_record
  score :: real
  alb_score :: real
  art_score :: real

text \<open>The two tests of the loop body, and \<open>r.get(key, "")\<close>.\<close>

definition kind_ok :: "catalog_record \<Rightarrow> bool" where
  "kind_ok r \<longleftrightarrow> collectionType r = Some ''Album'' \<or> wrapperType r = Some ''collection''"

definition entity_ok :: "catalog_record \<Rightarrow> bool" where
  "entity_ok r \<longleftrightarrow> collectionName r \<noteq> None \<and> artistName r \<noteq> None \<and> artworkUrl100 r \<noteq> None"

definition get_str :: "string option \<Rightarrow> string" where
  "get_str v = (case v of None \<Rightarrow> [] | Some s \<Rightarrow> s)"

text \<open>
  \<open>0.7 * alb_score + 0.3 * art_score\<close> in floats: the decimal literals stand for the floats
  nearest to them, and the two products and the sum are rounded.
\<close>

definition weighted :: "real \<Rightarrow> real \<Rightarrow> real" where
  "weighted alb art =
     round_double (round_double (round_double 0.7 * alb) + round_double (round_double 0.3 * art))"

text \<open>
  The loop \<open>for r in results\<close>; its state is \<open>best\<close> and \<open>best_score\<close>.
  \<open>(best or {}).get("_alb_score", 0)\<close> is 0 as long as there is no best record. The
  difference \<open>score - best_score\<close> is rounded, and \<open>1e-6\<close> is the float nearest to it.
\<close>

fun best_album_loop ::
  "string \<Rightarrow> string \<Rightarrow> catalog_record list \<Rightarrow> scored_record option \<times> real
     \<Rightarrow> scored_record option \<times> real" where
  "best_album_loop artist album [] (best, best_score) = (best, best_score)"
| "best_album_loop artist album (r # results) (best, best_score) =
     (if \<not> (kind_ok r \<and> entity_ok r) then best_album_loop artist album results (best, best_score)
      else
        let alb = get_str (collectionName r);
            art = get_str (artistName r);
            alb_score' = similarity album alb;
            art_score' = similarity artist art;
            score' = weighted alb_score' art_score'
        in if best_score < score' \<or>
              (\<bar>round_double (score' - best_score)\<bar> < round_double (1 / 1000000) \<and>
               (case best of None \<Rightarrow> 0 | Some b \<Rightarrow> alb_score b) < alb_score')
           then best_album_loop artist album results
                  (Some \<lparr>rec = r, score = score', alb_score = alb_score', art_score = art_score'\<rparr>,
                   score')
           else best_album_loop artist album results (best, best_score))"

definition best_album_match ::
  "catalog_record list \<Rightarrow> string \<Rightarrow> string \<Rightarrow> real \<Rightarrow> scored_record option" where
  "best_album_match results artist album min_score =
     (case best_album_loop artist album results (None, - 1) of
        (best, best_score) \<Rightarrow> if best \<noteq> None \<and> min_score \<le> best_score then best else None)"










section \<open>Network, clock and random numbers\<close>

text \<open>
  What the program reads of a response. The header \<open>Retry-After\<close> is given by what the
  program makes of it: absent (or empty, which \<open>if retry_after\<close> treats alike), a text on
  which \<open>float\<close> raises \<open>ValueError\<close>, or the number that \<open>float\<close> returns. \<open>json_results\<close> is
  what \<open>r.json()\<close> followed by \<open>data.get("results", [])\<close> gives: an exception, or the list
  of records. \<open>chunks\<close> is what \<open>iter_content\<close> delivers, and \<open>stream_error\<close> the exception
  that ends the stream early, if any.
\<close>

datatype retry_after = Absent | NotANumber | Seconds real

record response =
  status_code :: int
  retry_after_header :: retry_after
  content_type :: "string option"
  json_results :: "exn + catalog_record list"
  chunks :: "string list"
  stream_error :: "exn option"

datatype reply = Raises exn | Responds response

text \<open>
  A request is a search of the catalog, with its parameters, or the download of a URL
  from the image host; both carry the timeout.
\<close>

datatype request =
  ApiSearch "(string \<times> string) list" int
  | CdnGet string int

text \<open>
  What the program does to the outside, in order: a request sent, a call of
  \<open>time.sleep\<close>, the line printed by \<open>main\<close> for an album (index, tag, relative path,
  message), another line printed.
\<close>

datatype event =
  Sent request
  | Slept real
  | Progress nat string "string \<times> string" string
  | Printed string

text \<open>
  The state of the run. Three fields are the environment, fixed in advance and read in
  order: the reply to the n-th request, the n-th value of \<open>random.random()\<close>, the n-th
  reading of \<open>time.monotonic()\<close>. The others are the counters into them, the dictionary
  \<open>_last\<close> of the pacer, the trace of events and the directory tree under the library
  root.
\<close>

record world =
  replies :: "nat \<Rightarrow> reply"
  n_requests :: nat
  random01 :: "nat \<Rightarrow> real"
  n_random :: nat
  clock :: "nat \<Rightarrow> real"
  n_clock :: nat
  pacer_last :: "string \<rightharpoonup> real"
  trace :: "event list"
  tree :: fsnode

text \<open>
  A computation takes the state and returns a value or an exception, with the new
  state.
\<close>

type_synonym 'a io = "world \<Rightarrow> (exn + 'a) \<times> world"

definition ret :: "'a \<Rightarrow> 'a io" where
  "ret x = (\<lambda>w. (Inr x, w))"

definition raise :: "exn \<Rightarrow> 'a io" where
  "raise e = (\<lambda>w. (Inl e, w))"

definition bind :: "'a io \<Rightarrow> ('a \<Rightarrow> 'b io) \<Rightarrow> 'b io" where
  "bind m f = (\<lambda>w. case m w of (Inl e, w') \<Rightarrow> (Inl e, w') | (Inr x, w') \<Rightarrow> f x w')"

text \<open>
  \<open>try: m except ...\<close>: the clauses are tried in order on an exception of \<open>m\<close>; an
  exception of a handler is not caught by the clauses of its own statement.
\<close>

fun handle_exn :: "((exn \<Rightarrow> bool) \<times> (exn \<Rightarrow> 'a io)) list \<Rightarrow> exn \<Rightarrow> 'a io" where
  "handle_exn [] e = raise e"
| "handle_exn ((handles, h) # clauses) e = (if handles e then h e else handle_exn clauses e)"

definition try_except :: "'a io \<Rightarrow> ((exn \<Rightarrow> bool) \<times> (exn \<Rightarrow> 'a io)) list \<Rightarrow> 'a io" where
  "try_except m clauses =
     (\<lambda>w. case m w of
            (Inl e, w') \<Rightarrow> handle_exn clauses e w'
          | (Inr x, w') \<Rightarrow> (Inr x, w'))"

text \<open>\<open>time.sleep\<close> raises \<open>ValueError\<close> on a negative length.\<close>

definition sleep :: "real \<Rightarrow> unit io" where
  "sleep d =
     (\<lambda>w. if d < 0 then (Inl (Exn ValueError ''sleep length must be non-negative''), w)
           else (Inr (), w\<lparr>trace := trace w @ [Slept d]\<rparr>))"

text \<open>\<open>random.uniform(a, b)\<close> is \<open>a + (b - a) * random()\<close>.\<close>

definition uniform :: "real \<Rightarrow> real \<Rightarrow> real io" where
  "uniform a b =
     (\<lambda>w. (Inr (a + (b - a) * random01 w (n_random w)), w\<lparr>n_random := Suc (n_random w)\<rparr>))"

definition monotonic :: "real io" where
  "monotonic = (\<lambda>w. (Inr (clock w (n_clock w)), w\<lparr>n_clock := Suc (n_clock w)\<rparr>))"

text \<open>\<open>session.get\<close>: the request is recorded and the next reply of the environment met.\<close>

definition session_get :: "request \<Rightarrow> response io" where
  "session_get rq =
     (\<lambda>w. let w' = w\<lparr>n_requests := Suc (n_requests w), trace := trace w @ [Sent rq]\<rparr>
           in case replies w (n_requests w) of
                Raises e \<Rightarrow> (Inl e, w')
              | Responds r \<Rightarrow> (Inr r, w'))"

subsection \<open>Pacer\<close>

definition pacer_wait :: "string \<Rightarrow> real \<Rightarrow> real \<Rightarrow> unit io" where
  "pacer_wait key min_interval jitter =
     bind monotonic (\<lambda>now w.
       let last = (case pacer_last w key of None \<Rightarrow> 0 | Some t \<Rightarrow> t);
           to_wait = max 0 (min_interval - (now - last))
       in if 0 < to_wait
          then (if 0 < jitter
                then bind (uniform 0 jitter) (\<lambda>u. sleep (to_wait + u)) w
                else sleep to_wait w)
          else (Inr (), w))"

definition pacer_mark :: "string \<Rightarrow> unit io" where
  "pacer_mark key =
     bind monotonic (\<lambda>now w. (Inr (), w\<lparr>pacer_last := (pacer_last w)(key \<mapsto> now)\<rparr>))"

section \<open>Catalog client and CDN prober\<close>

text \<open>
  One pass of a retry loop returns from the function or goes on with the next attempt
  (\<open>continue\<close>), in the catalog client with the exception that it stored in \<open>last_exc\<close>,
  if any. A loop ends by a return or by running out of attempts.
\<close>

datatype 'a step = Return 'a | Continue "exn option"

datatype 'a loop_end = Returned 'a | Exhausted "exn option"

text \<open>\<open>r.status_code in (403, 429) or 500 <= r.status_code < 600\<close>\<close>

definition retryable_status :: "int \<Rightarrow> bool" where
  "retryable_status st \<longleftrightarrow> st = 403 \<or> st = 429 \<or> (500 \<le> st \<and> st < 600)"

text \<open>
  \<open>backoff ** attempt\<close>, a float to the power of an integer that is not negative, raises
  \<open>OverflowError\<close> when the power is too large for a float, that is from \<open>float_limit\<close>,
  which is \<open>2^1024 - 2^970\<close>, on: there rounding leaves the finite floats. The lengths of
  time of the program are modelled by exact real numbers: the rounding of the operations
  on them is left out.
\<close>

definition float_limit :: real where
  "float_limit =
     179769313486231580793728971405303415079934132710037826936173778980444968292764750946649017977587207096330286416692887910946555547851940402630657488671505820681908902000708383676273854845817711531764475730270069855571366959622842914819860834936475292719074168444365510704342711559699508093042880177904174497792"

lemma float_limit_eq: "float_limit = 2 ^ 1024 - 2 ^ 970"
  by (simp add: float_limit_def)

definition float_pow :: "real \<Rightarrow> nat \<Rightarrow> exn + real" where
  "float_pow b n =
     (if float_limit \<le> \<bar>b ^ n\<bar>
      then Inl (Exn OverflowError (''(34, '' @ quoted ''Numerical result out of range'' @ '')''))
      else Inr (b ^ n))"

text \<open>
  The delay of a retryable status: the number of the header \<open>Retry-After\<close> if \<open>float\<close>
  accepts it, else \<open>backoff ** attempt\<close>.
\<close>

definition retry_delay :: "retry_after \<Rightarrow> real \<Rightarrow> nat \<Rightarrow> exn + real" where
  "retry_delay ra backoff attempt =
     (case ra of
        Seconds v \<Rightarrow> Inr v
      | NotANumber \<Rightarrow> float_pow backoff attempt
      | Absent \<Rightarrow> float_pow backoff attempt)"

text \<open>A value or an exception that is computed without the state.\<close>

definition lift_result :: "exn + 'a \<Rightarrow> 'a io" where
  "lift_result x = (\<lambda>w. (x, w))"

text \<open>\<open>time.sleep(min(cap, delay) + random.uniform(0.0, max(0.05, jitter)))\<close>\<close>

definition capped_sleep :: "real \<Rightarrow> real \<Rightarrow> real \<Rightarrow> unit io" where
  "capped_sleep cap delay jitter =
     bind (uniform 0 (max 0.05 jitter)) (\<lambda>u. sleep (min cap delay + u))"

text \<open>
  \<open>r.raise_for_status()\<close> raises \<open>HTTPError\<close> for a status from 400 to 599 and returns
  otherwise. The text of the exception is cut down to the kind of the error; the library
  puts the status, the reason phrase and the URL around it.
\<close>

definition raise_for_status :: "response \<Rightarrow> unit io" where
  "raise_for_status r =
     (if 400 \<le> status_code r \<and> status_code r < 500 then raise (Exn HTTPError ''Client Error'')
      else if 500 \<le> status_code r \<and> status_code r < 600 then raise (Exn HTTPError ''Server Error'')
      else ret ())"

subsection \<open>\<open>api_search_with_retries\<close>\<close>

definition api_attempt ::
  "(string \<times> string) list \<Rightarrow> int \<Rightarrow> real \<Rightarrow> real \<Rightarrow> real \<Rightarrow> nat \<Rightarrow> catalog_record list step io" where
  "api_attempt params timeout api_interval backoff jitter attempt =
     bind (pacer_wait ''itunes_api'' api_interval (jitter * 0.5)) (\<lambda>_.
       try_except
         (bind (session_get (ApiSearch params timeout)) (\<lambda>r.
          bind (pacer_mark ''itunes_api'') (\<lambda>_.
            if status_code r = 200 then
              (case json_results r of Inl e \<Rightarrow> raise e | Inr rs \<Rightarrow> ret (Return rs))
            else if retryable_status (status_code r) then
              bind (lift_result (retry_delay (retry_after_header r) backoff attempt)) (\<lambda>delay.
              bind (capped_sleep 30 delay jitter) (\<lambda>_. ret (Continue None)))
            else bind (raise_for_status r) (\<lambda>_. ret (Return [])))))
         [(is_timeout_or_connection,
           \<lambda>e. bind (lift_result (float_pow backoff attempt)) (\<lambda>delay.
               bind (capped_sleep 30 delay jitter) (\<lambda>_. ret (Continue (Some e)))))])"

text \<open>
  The loop \<open>for attempt in range(max_retries)\<close>, with the number of the attempt, the number
  of attempts left and \<open>last_exc\<close>.
\<close>

fun api_attempts ::
  "(string \<times> string) list \<Rightarrow> int \<Rightarrow> real \<Rightarrow> real \<Rightarrow> real \<Rightarrow> nat \<Rightarrow> nat \<Rightarrow> exn option
     \<Rightarrow> catalog_record list loop_end io" where
  "api_attempts params timeout api_interval backoff jitter attempt 0 last_exc w =
     (Inr (Exhausted last_exc), w)"
| "api_attempts params timeout api_interval backoff jitter attempt (Suc n) last_exc w =
     (case api_attempt params timeout api_interval backoff jitter attempt w of
        (Inl e, w') \<Rightarrow> (Inl e, w')
      | (Inr (Return rs), w') \<Rightarrow> (Inr (Returned rs), w')
      | (Inr (Continue exc), w') \<Rightarrow>
          api_attempts params timeout api_interval backoff jitter (Suc attempt) n
            (case exc of Some e \<Rightarrow> Some e | None \<Rightarrow> last_exc) w')"

definition api_search_with_retries ::
  "(string \<times> string) list \<Rightarrow> int \<Rightarrow> real \<Rightarrow> int \<Rightarrow> real \<Rightarrow> real \<Rightarrow> catalog_record list io" where
  "api_search_with_retries params timeout api_interval max_retries backoff jitter =
     bind (api_attempts params timeout api_interval backoff jitter 0 (nat max_retries) None)
       (\<lambda>ending. case ending of
          Returned rs \<Rightarrow> ret rs
        | Exhausted (Some last_exc) \<Rightarrow> raise last_exc
        | Exhausted None \<Rightarrow> ret [])"

subsection \<open>\<open>request_cdn_stream\<close>\<close>

text \<open>\<open>sub in s\<close> on strings.\<close>

definition contains :: "string \<Rightarrow> string \<Rightarrow> bool" where
  "contains s sub \<longleftrightarrow> list_ex (\<lambda>i. take (length sub) (drop i s) = sub) [0..<Suc (length s)]"

definition cdn_attempt ::
  "string \<Rightarrow> int \<Rightarrow> real \<Rightarrow> real \<Rightarrow> real \<Rightarrow> nat \<Rightarrow> response option step io" where
  "cdn_attempt url timeout cdn_interval backoff jitter attempt =
     bind (pacer_wait ''mzstatic_cdn'' cdn_interval jitter) (\<lambda>_.
       try_except
         (bind (session_get (CdnGet url timeout)) (\<lambda>r.
          bind (pacer_mark ''mzstatic_cdn'') (\<lambda>_.
            if status_code r = 200 then
              (if contains (lower (get_str (content_type r))) ''image''
               then ret (Return (Some r)) else ret (Return None))
            else if retryable_status (status_code r) then
              bind (lift_result (retry_delay (retry_after_header r) backoff attempt)) (\<lambda>delay.
              bind (capped_sleep 60 delay jitter) (\<lambda>_. ret (Continue None)))
            else ret (Return None))))
         [(is_timeout_or_connection,
           \<lambda>e. bind (lift_result (float_pow backoff attempt)) (\<lambda>delay.
               bind (capped_sleep 60 delay jitter) (\<lambda>_. ret (Continue None)))),
          (is_request_exception, \<lambda>e. ret (Return None))])"

fun cdn_attempts ::
  "string \<Rightarrow> int \<Rightarrow> real \<Rightarrow> real \<Rightarrow> real \<Rightarrow> nat \<Rightarrow> nat \<Rightarrow> response option loop_end io" where
  "cdn_attempts url timeout cdn_interval backoff jitter attempt 0 w = (Inr (Exhausted None), w)"
| "cdn_attempts url timeout cdn_interval backoff jitter attempt (Suc n) w =
     (case cdn_attempt url timeout cdn_interval backoff jitter attempt w of
        (Inl e, w') \<Rightarrow> (Inl e, w')
      | (Inr (Return res), w') \<Rightarrow> (Inr (Returned res), w')
      | (Inr (Continue exc), w') \<Rightarrow>
          cdn_attempts url timeout cdn_interval backoff jitter (Suc attempt) n w')"

definition request_cdn_stream ::
  "string \<Rightarrow> int \<Rightarrow> real \<Rightarrow> int \<Rightarrow> real \<Rightarrow> real \<Rightarrow> response option io" where
  "request_cdn_stream url timeout cdn_interval max_retries backoff jitter =
     bind (cdn_attempts url timeout cdn_interval backoff jitter 0 (nat max_retries))
       (\<lambda>ending. case ending of
          Returned res \<Rightarrow> ret res
        | Exhausted exc \<Rightarrow> ret None)"

subsection \<open>\<open>pick_largest_working_art_stream\<close> and \<open>search_itunes_albums\<close>\<close>

fun try_candidates ::
  "string list \<Rightarrow> int \<Rightarrow> real \<Rightarrow> int \<Rightarrow> real \<Rightarrow> real
     \<Rightarrow> (response \<times> string \<times> string) option io" where
  "try_candidates [] timeout cdn_interval max_retries backoff jitter w = (Inr None, w)"
| "try_candidates (candidate # rest) timeout cdn_interval max_retries backoff jitter w =
     (case request_cdn_stream candidate timeout cdn_interval max_retries backoff jitter w of
        (Inl e, w') \<Rightarrow> (Inl e, w')
      | (Inr (Some resp), w') \<Rightarrow>
          (Inr (Some (resp, candidate, lower (get_str (content_type resp)))), w')
      | (Inr None, w') \<Rightarrow> try_candidates rest timeout cdn_interval max_retries backoff jitter w')"

definition pick_largest_working_art_stream ::
  "string \<Rightarrow> int \<Rightarrow> real \<Rightarrow> int \<Rightarrow> real \<Rightarrow> real \<Rightarrow> (response \<times> string \<times> string) option io" where
  "pick_largest_working_art_stream artwork_url_100 timeout cdn_interval max_retries backoff jitter =
     try_candidates (build_upscaled_urls artwork_url_100)
       timeout cdn_interval max_retries backoff jitter"

text \<open>\<open>str(n)\<close> for an integer.\<close>

function str_nat :: "nat \<Rightarrow> string" where
  "str_nat n =
     (if n < 10 then [char_of (48 + n)] else str_nat (n div 10) @ [char_of (48 + n mod 10)])"
  by pat_completeness auto
termination
  by (relation "measure id") auto

declare str_nat.simps [simp del]

definition str_int :: "int \<Rightarrow> string" where
  "str_int i = (if i < 0 then ''-'' @ str_nat (nat (- i)) else str_nat (nat i))"

definition search_itunes_albums ::
  "string \<Rightarrow> string \<Rightarrow> string \<Rightarrow> int \<Rightarrow> int \<Rightarrow> real \<Rightarrow> int \<Rightarrow> real \<Rightarrow> real
     \<Rightarrow> catalog_record list io" where
  "search_itunes_albums artist album country limit timeout api_interval max_retries backoff jitter =
     api_search_with_retries
       [(''term'', artist @ '' '' @ album), (''media'', ''music''), (''entity'', ''album''),
        (''country'', country), (''limit'', str_int limit)]
       timeout api_interval max_retries backoff jitter"

subsection \<open>Notions for the statements about the retry loops\<close>


text \<open>What a step leaves unchanged: the environment and the directory tree.\<close>

definition same_env :: "world \<Rightarrow> world \<Rightarrow> bool" where
  "same_env w w' \<longleftrightarrow>
     replies w' = replies w \<and> random01 w' = random01 w \<and> clock w' = clock w \<and> tree w' = tree w"

text \<open>
  A state at the start of a run, for the examples: nothing requested or drawn yet, every
  random number 0 (no jitter), and a clock that advances by 1000 seconds at each reading
  (the pacer never has to wait).
\<close>

definition calm_world :: "(nat \<Rightarrow> reply) \<Rightarrow> fsnode \<Rightarrow> world" where
  "calm_world rs t =
     \<lparr>replies = rs, n_requests = 0, random01 = (\<lambda>n. 0), n_random = 0,
      clock = (\<lambda>n. 1000 * real (Suc n)), n_clock = 0, pacer_last = Map.empty,
      trace = [], tree = t\<rparr>"

text \<open>A response with a status and a \<open>Retry-After\<close> header and nothing else.\<close>

definition status_response :: "int \<Rightarrow> retry_after \<Rightarrow> response" where
  "status_response st ra =
     \<lparr>status_code = st, retry_after_header = ra, content_type = None,
      json_results = Inr [], chunks = [], stream_error = None\<rparr>"

text \<open>The parameters of the first search for \<open>The Beatles/Abbey Road\<close>.\<close>

definition abbey_road_params :: "(string \<times> string) list" where
  "abbey_road_params =
     [(''term'', ''The Beatles Abbey Road''), (''media'', ''music''), (''entity'', ''album''),
      (''country'', ''US''), (''limit'', ''200'')]"

section \<open>Orchestrator\<close>

subsection \<open>Disc subfolders\<close>

text \<open>
  The five patterns of \<open>DISC_FOLDER_PATTERNS\<close>, searched with \<open>re.IGNORECASE\<close> in the
  stripped name. Each is anchored at both ends, \<open>\s*\<close> and \<open>\d+\<close> share no character, and a
  stripped name ends in no line feed, so a pattern matches when the name is its literal
  parts, case ignored, with white space and digits between them.
\<close>

text \<open>The rest of \<open>s\<close> after the literal \<open>lit\<close> (in lower case), case ignored.\<close>

definition after_literal :: "string \<Rightarrow> string \<Rightarrow> string option" where
  "after_literal lit s =
     (if lower (take (length lit) s) = lit then Some (drop (length lit) s) else None)"

text \<open>\<open>\s*\d+$\<close> and \<open>\s*\[\d+\]$\<close> on the rest of a name.\<close>

definition spaces_digits :: "string \<Rightarrow> bool" where
  "spaces_digits s \<longleftrightarrow> dropWhile is_space s \<noteq> [] \<and> list_all is_digit (dropWhile is_space s)"

definition bracketed_digits :: "string \<Rightarrow> bool" where
  "bracketed_digits s \<longleftrightarrow>
     2 \<le> length s \<and> hd s = CHR ''['' \<and> last s = CHR '']'' \<and>
     butlast (tl s) \<noteq> [] \<and> list_all is_digit (butlast (tl s))"

definition is_disc_subfolder :: "string \<Rightarrow> bool" where
  "is_disc_subfolder name0 =
     (let name = strip name0 in
      (case after_literal ''cd'' name of Some r \<Rightarrow> spaces_digits r | None \<Rightarrow> False) \<or>
      (case after_literal ''disc'' name of Some r \<Rightarrow> spaces_digits r | None \<Rightarrow> False) \<or>
      (case after_literal ''digital'' name of
         Some r \<Rightarrow>
           (case after_literal ''media'' (dropWhile is_space r) of
              Some r' \<Rightarrow> spaces_digits r' \<or> bracketed_digits (dropWhile is_space r')
            | None \<Rightarrow> False)
       | None \<Rightarrow> False) \<or>
      bracketed_digits name)"

subsection \<open>Album directories and their files\<close>

text \<open>
  An album directory as \<open>main\<close> passes it: the text of the library root, and the names of
  the artist directory (\<open>album_dir.parent.name\<close>) and of the album directory
  (\<open>album_dir.name\<close>).
\<close>

record album_dir =
  library :: string
  artist_name :: string
  album_name :: string

text \<open>\<open>str(album_dir)\<close>\<close>

definition path_text :: "album_dir \<Rightarrow> string" where
  "path_text d =
     (if library d = ''/'' then [] else library d) @ ''/'' @ artist_name d @ ''/'' @ album_name d"

text \<open>
  What \<open>os.stat\<close> finds at the album directory and at a name in it, going down from the
  library root, and \<open>(album_dir / name).exists()\<close>.
\<close>

definition album_stat :: "world \<Rightarrow> album_dir \<Rightarrow> stat_result" where
  "album_stat w d = stat_path (tree w) [artist_name d, album_name d]"

definition file_stat :: "world \<Rightarrow> album_dir \<Rightarrow> string \<Rightarrow> stat_result" where
  "file_stat w d name = stat_path (tree w) [artist_name d, album_name d, name]"

definition exists_in_album :: "album_dir \<Rightarrow> string \<Rightarrow> bool io" where
  "exists_in_album d name =
     (\<lambda>w. (path_exists (join (path_text d) name) (file_stat w d name), w))"

text \<open>Changing the entry of a directory, putting a file in it, and removing an entry.\<close>

fun with_entries ::
  "((string \<times> fsnode) list \<Rightarrow> (string \<times> fsnode) list) \<Rightarrow> fsnode \<Rightarrow> fsnode" where
  "with_entries f (Dir es) = Dir (f es)"
| "with_entries f (Restricted a es) = Restricted a (f es)"
| "with_entries f (File c) = File c"

definition change_entry :: "string \<Rightarrow> (fsnode \<Rightarrow> fsnode) \<Rightarrow> fsnode \<Rightarrow> fsnode" where
  "change_entry name f =
     with_entries (map (\<lambda>(x, c). if x = name then (x, f c) else (x, c)))"

definition put_file :: "string \<Rightarrow> string \<Rightarrow> fsnode \<Rightarrow> fsnode" where
  "put_file name content =
     with_entries (\<lambda>es.
       if map_of es name = None then es @ [(name, File content)]
       else map (\<lambda>(x, c). if x = name then (x, File content) else (x, c)) es)"

definition remove_entry :: "string \<Rightarrow> fsnode \<Rightarrow> fsnode" where
  "remove_entry name = with_entries (filter (\<lambda>(x, c). x \<noteq> name))"

definition in_album :: "album_dir \<Rightarrow> (fsnode \<Rightarrow> fsnode) \<Rightarrow> world \<Rightarrow> world" where
  "in_album d f w =
     w\<lparr>tree := change_entry (artist_name d) (change_entry (album_name d) f) (tree w)\<rparr>"

text \<open>
  \<open>album_has_cover\<close> returns the name of the first cover that exists; \<open>exists\<close> raises
  when the album directory may not be searched.
\<close>

definition album_has_cover :: "album_dir \<Rightarrow> string option io" where
  "album_has_cover d =
     bind (exists_in_album d ''cover.jpg'') (\<lambda>jpg.
       if jpg then ret (Some ''cover.jpg'')
       else bind (exists_in_album d ''cover.png'') (\<lambda>png.
         if png then ret (Some ''cover.png'') else ret None))"

definition derive_extension_from_content_type :: "string \<Rightarrow> string" where
  "derive_extension_from_content_type ct =
     (if contains (lower ct) ''png'' then ''.png'' else ''.jpg'')"

text \<open>
  \<open>download_stream_to_file\<close>: the chunks that are not empty go to the file \<open>dest.part\<close>,
  which then replaces \<open>dest\<close>. \<open>open\<close> raises a subclass of \<open>OSError\<close> when the album
  directory is missing, is not a directory or may not be searched, when the temporary name
  is a directory, and when the temporary file is not there and the directory may not be
  written. \<open>replace\<close> raises when the directory may not be written or \<open>dest\<close> is a
  directory. An exception of the stream leaves the temporary file with what was written.
\<close>

definition rename_error :: "string \<Rightarrow> string \<Rightarrow> string \<Rightarrow> exn_class \<Rightarrow> exn" where
  "rename_error what src dst c = Exn c (what @ quoted src @ '' -> '' @ quoted dst)"

definition download_stream_to_file :: "response \<Rightarrow> album_dir \<Rightarrow> string \<Rightarrow> unit io" where
  "download_stream_to_file resp d dest =
     (\<lambda>w. let tmp = dest @ ''.part'';
               tmp_path = join (path_text d) tmp;
               dest_path = join (path_text d) dest
       in case album_stat w d of
         NoAccess \<Rightarrow> (Inl (permission_denied tmp_path), w)
       | NoEntry \<Rightarrow> (Inl (no_such_file tmp_path), w)
       | Found n \<Rightarrow>
           if \<not> is_directory n then (Inl (not_a_directory tmp_path), w)
           else if \<not> searchable (rights n) then (Inl (permission_denied tmp_path), w)
           else if (case map_of (entries n) tmp of Some m \<Rightarrow> is_directory m | None \<Rightarrow> False)
           then (Inl (is_a_directory tmp_path), w)
           else if map_of (entries n) tmp = None \<and> \<not> writable (rights n)
           then (Inl (permission_denied tmp_path), w)
           else
             let written = concat (filter (\<lambda>chunk. chunk \<noteq> []) (chunks resp));
                 w1 = in_album d (put_file tmp written) w
             in case stream_error resp of
                  Some e \<Rightarrow> (Inl e, w1)
                | None \<Rightarrow>
                    if \<not> writable (rights n)
                    then (Inl (rename_error ''[Errno 13] Permission denied: '' tmp_path dest_path
                                 PermissionError), w1)
                    else if (case map_of (entries n) dest of
                               Some m \<Rightarrow> is_directory m | None \<Rightarrow> False)
                    then (Inl (rename_error ''[Errno 21] Is a directory: '' tmp_path dest_path
                                 OSError), w1)
                    else (Inr (), in_album d (\<lambda>n. remove_entry tmp (put_file dest written n)) w))"

text \<open>
  \<open>other.unlink()\<close> inside \<open>try ... except Exception: pass\<close>: a file is removed when the
  directory may be searched and written.
\<close>

definition unlink_quietly :: "album_dir \<Rightarrow> string \<Rightarrow> unit io" where
  "unlink_quietly d name =
     (\<lambda>w. case album_stat w d of
            Found n \<Rightarrow>
              (if is_directory n \<and> searchable (rights n) \<and> writable (rights n) \<and>
                  (case map_of (entries n) name of Some m \<Rightarrow> \<not> is_directory m | None \<Rightarrow> False)
               then (Inr (), in_album d (remove_entry name) w)
               else (Inr (), w))
          | NoEntry \<Rightarrow> (Inr (), w)
          | NoAccess \<Rightarrow> (Inr (), w))"

subsection \<open>\<open>process_album\<close>\<close>

text \<open>The dashes of the messages, in UTF-8.\<close>

definition em_dash :: string where
  "em_dash = [CHR 0xE2, CHR 0x80, CHR 0x94]"

definition en_dash :: string where
  "en_dash = [CHR 0xE2, CHR 0x80, CHR 0x93]"

text \<open>\<open>next((s for s in PROBE_SIZES if f"/{s}" in url), "unknown")\<close>\<close>

definition size_info :: "string \<Rightarrow> string" where
  "size_info url =
     (case filter (\<lambda>s. contains url (''/'' @ s)) PROBE_SIZES of
        [] \<Rightarrow> ''unknown''
      | s # rest \<Rightarrow> s)"

text \<open>
  The part of \<open>process_album\<close> after the match is chosen: dry run, probing of the image
  host, download.
\<close>

definition fetch_artwork ::
  "album_dir \<Rightarrow> scored_record \<Rightarrow> string \<Rightarrow> bool \<Rightarrow> bool \<Rightarrow> int \<Rightarrow> real \<Rightarrow> int \<Rightarrow> real \<Rightarrow> real
     \<Rightarrow> (bool \<times> string) io" where
  "fetch_artwork d match artwork_url_100 overwrite dry_run timeout cdn_interval max_retries
       backoff jitter =
     (let artist = artist_name d; album = album_name d in
      if dry_run then
        (let top_candidate = hd (build_upscaled_urls artwork_url_100);
             ext_hint = (if endswith (lower top_candidate) ''.png'' then ''.png'' else ''.jpg'')
         in ret (False, ''Would save -> cover'' @ ext_hint @ ''  from '' @ top_candidate))
      else
        bind (pick_largest_working_art_stream artwork_url_100 timeout cdn_interval max_retries
                backoff jitter)
          (\<lambda>pick. case pick of
             None \<Rightarrow> ret (False, ''No accessible artwork: '' @ artist @ '' / '' @ album)
           | Some (resp, url, ct) \<Rightarrow>
               (let ext = derive_extension_from_content_type ct;
                    dest = ''cover'' @ ext;
                    other = ''cover'' @ (if ext = ''.jpg'' then ''.png'' else ''.jpg'')
                in bind (exists_in_album d other) (\<lambda>other_exists.
                  if other_exists \<and> \<not> overwrite then
                    ret (False, ''Exists (other format): '' @ other @ '' '' @ em_dash @ '' ''
                           @ artist @ '' / '' @ album)
                  else
                    bind (try_except
                            (bind (download_stream_to_file resp d dest) (\<lambda>_. ret None))
                            [(is_request_exception,
                              \<lambda>e. ret (Some (False, ''Download failed: '' @ artist @ '' / ''
                                             @ album @ '' '' @ em_dash @ '' '' @ exn_text e)))])
                      (\<lambda>failed. case failed of
                         Some give_up \<Rightarrow> ret give_up
                       | None \<Rightarrow>
                           bind (if overwrite
                                 then bind (exists_in_album d other) (\<lambda>still.
                                        if still then unlink_quietly d other else ret ())
                                 else ret ())
                             (\<lambda>_. ret (True, ''Saved '' @ dest @ ''  ['' @ size_info url @ ''] ''
                                      @ em_dash @ '' matched '' @ [CHR 0x27]
                                      @ get_str (artistName (rec match)) @ '' '' @ en_dash @ '' ''
                                      @ get_str (collectionName (rec match)) @ [CHR 0x27])))))))"

text \<open>
  A search inside \<open>try ... except requests.RequestException as e: return False, ...\<close>: the
  results, or the pair that \<open>process_album\<close> returns at once.
\<close>

definition search_or_give_up ::
  "string \<Rightarrow> string \<Rightarrow> catalog_record list io \<Rightarrow> ((bool \<times> string) + catalog_record list) io" where
  "search_or_give_up artist album search =
     try_except (bind search (\<lambda>rs. ret (Inr rs)))
       [(is_request_exception,
         \<lambda>e. ret (Inl (False, ''Network error: '' @ artist @ '' / '' @ album @ '' '' @ em_dash
                          @ '' '' @ exn_text e)))]"

definition process_album ::
  "album_dir \<Rightarrow> string \<Rightarrow> int \<Rightarrow> bool \<Rightarrow> bool \<Rightarrow> int \<Rightarrow> real \<Rightarrow> real \<Rightarrow> int \<Rightarrow> real \<Rightarrow> real
     \<Rightarrow> (bool \<times> string) io" where
  "process_album d country limit overwrite dry_run timeout api_interval cdn_interval max_retries
       backoff jitter =
     (let artist = artist_name d; album = album_name d in
      if is_disc_subfolder album then ret (False, ''Skip disc subfolder: '' @ path_text d)
      else bind (album_has_cover d) (\<lambda>existing.
        if existing \<noteq> None \<and> \<not> overwrite then
          ret (False, ''Exists: '' @ get_str existing @ ''  '' @ em_dash @ '' '' @ artist
                 @ '' / '' @ album)
        else
          bind (search_or_give_up artist album
                  (search_itunes_albums artist album country limit timeout api_interval
                     max_retries backoff jitter))
            (\<lambda>first. case first of
               Inl give_up \<Rightarrow> ret give_up
             | Inr results1 \<Rightarrow>
                 bind (if results1 = [] then
                         search_or_give_up artist album
                           (api_search_with_retries
                              [(''term'', album), (''media'', ''music''), (''entity'', ''album''),
                               (''country'', country), (''limit'', str_int limit),
                               (''attribute'', ''albumTerm'')]
                              timeout api_interval max_retries backoff jitter)
                       else ret (Inr results1))
                   (\<lambda>second. case second of
                      Inl give_up \<Rightarrow> ret give_up
                    | Inr results2 \<Rightarrow>
                        (case best_album_match results2 artist album (round_double 0.55) of
                           None \<Rightarrow> ret (False, ''No good match: '' @ artist @ '' / '' @ album)
                         | Some match \<Rightarrow>
                             (if get_str (artworkUrl100 (rec match)) = [] then
                                ret (False, ''No artworkUrl100: '' @ artist @ '' / '' @ album)
                              else
                                fetch_artwork d match (get_str (artworkUrl100 (rec match)))
                                  overwrite dry_run timeout cdn_interval max_retries backoff
                                  jitter))))))"

subsection \<open>\<open>main\<close>\<close>

text \<open>The arguments of the command line, after parsing.\<close>

record args =
  arg_country :: string
  arg_limit :: int
  arg_force :: bool
  arg_dry_run :: bool
  arg_timeout :: int
  arg_api_interval :: real
  arg_cdn_interval :: real
  arg_max_retries :: int
  arg_backoff :: real
  arg_jitter :: real

record counters =
  changed :: nat
  skipped :: nat
  errors :: nat

text \<open>
  \<open>any(k in msg.lower() for k in ["error", "failed", "no accessible artwork", "network"])\<close>
\<close>

definition error_keywords :: "string list" where
  "error_keywords = [''error'', ''failed'', ''no accessible artwork'', ''network'']"

definition counts_as_error :: "string \<Rightarrow> bool" where
  "counts_as_error msg \<longleftrightarrow> list_ex (\<lambda>k. contains (lower msg) k) error_keywords"

definition print_event :: "event \<Rightarrow> world \<Rightarrow> world" where
  "print_event ev w = w\<lparr>trace := trace w @ [ev]\<rparr>"

text \<open>
  The loop \<open>for idx, album_dir in enumerate(album_dirs, start=1)\<close>. A
  \<open>KeyboardInterrupt\<close> leaves the loop; any other exception of \<open>process_album\<close> is counted
  and the loop goes on.
\<close>

fun album_loop :: "args \<Rightarrow> nat \<Rightarrow> album_dir list \<Rightarrow> counters \<Rightarrow> counters io" where
  "album_loop a idx [] c w = (Inr c, w)"
| "album_loop a idx (d # ds) c w =
     (let rel = (artist_name d, album_name d) in
      case process_album d (arg_country a) (arg_limit a) (arg_force a) (arg_dry_run a) (arg_timeout a)
             (arg_api_interval a) (arg_cdn_interval a) (arg_max_retries a) (arg_backoff a) (arg_jitter a) w of
        (Inr (did_change, msg), w1) \<Rightarrow>
          (let w2 = print_event
                      (Progress idx (if did_change then ''[OK]'' else ''[SKIP]'') rel msg) w1;
               c' = (if did_change then c\<lparr>changed := changed c + 1\<rparr>
                     else if counts_as_error msg then c\<lparr>errors := errors c + 1\<rparr>
                     else c\<lparr>skipped := skipped c + 1\<rparr>)
           in case sleep 0.05 w2 of
                (Inl e, w3) \<Rightarrow> (Inl e, w3)
              | (Inr u, w3) \<Rightarrow> album_loop a (Suc idx) ds c' w3)
      | (Inl e, w1) \<Rightarrow>
          if \<not> is_exception e then (Inr c, print_event (Printed ''Interrupted by user.'') w1)
          else
            (let c' = c\<lparr>errors := errors c + 1\<rparr>;
                 w2 = print_event (Progress idx ''[ERR]'' rel (''Exception: '' @ exn_text e)) w1
             in case sleep 0.05 w2 of
                  (Inl e', w3) \<Rightarrow> (Inl e', w3)
                | (Inr u, w3) \<Rightarrow> album_loop a (Suc idx) ds c' w3))"

text \<open>
  How \<open>main\<close> ends: \<open>sys.exit(1)\<close> for a root that is not a directory, a return when no
  album directory is found, or the summary with the three counters. The state holds the
  node at the library root, so the root is there and can be examined; an exception of
  \<open>find_album_dirs\<close> is not caught.
\<close>

datatype run_end = ExitFailure | NothingFound | Summary counters

definition main :: "args \<Rightarrow> string \<Rightarrow> run_end io" where
  "main a root_text =
     (\<lambda>w. if \<not> is_directory (tree w)
           then (Inr ExitFailure,
                 print_event
                   (Printed (''Root path does not exist or is not a directory: '' @ root_text)) w)
           else
             case find_album_dirs root_text (Found (tree w)) of
               Inl e \<Rightarrow> (Inl e, w)
             | Inr found \<Rightarrow>
                 let album_dirs =
                       map (\<lambda>((artist, album), n).
                              \<lparr>library = root_text, artist_name = artist, album_name = album\<rparr>)
                         found
                 in if length album_dirs = 0
                    then (Inr NothingFound,
                          print_event (Printed ''No Artist/Album directories found.'') w)
                    else
                      case album_loop a 1 album_dirs \<lparr>changed = 0, skipped = 0, errors = 0\<rparr>
                             (print_event
                                (Printed (''Scanning '' @ str_nat (length album_dirs)
                                          @ '' album folders under: '' @ root_text)) w) of
                        (Inl e, w1) \<Rightarrow> (Inl e, w1)
                      | (Inr c, w1) \<Rightarrow>
                          (Inr (Summary c),
                           print_event
                             (Printed (''Downloaded: '' @ str_nat (changed c) @ ''  |  Skipped: ''
                                       @ str_nat (skipped c) @ ''  |  Errors: ''
                                       @ str_nat (errors c)))
                             (print_event (Printed ''Done.'') w1)))"

text \<open>The number of album lines in a trace, and the sum of the three counters.\<close>

fun is_progress :: "event \<Rightarrow> bool" where
  "is_progress (Progress idx tag rel msg) = True"
| "is_progress (Sent rq) = False"
| "is_progress (Slept t) = False"
| "is_progress (Printed s) = False"

definition album_lines :: "world \<Rightarrow> nat" where
  "album_lines w = length (filter is_progress (trace w))"

definition counted :: "counters \<Rightarrow> nat" where
  "counted c = changed c + skipped c + errors c"

text \<open>A computation prints no album line.\<close>

definition quiet :: "'a io \<Rightarrow> bool" where
  "quiet m \<longleftrightarrow> (\<forall>w r w'. m w = (r, w') \<longrightarrow> album_lines w' = album_lines w)"

text \<open>The default arguments, and the album directory \<open>The Beatles/Abbey Road\<close> of \<open>/music\<close>.\<close>

definition default_args :: args where
  "default_args =
     \<lparr>arg_country = ''US'', arg_limit = 200, arg_force = False, arg_dry_run = False,
      arg_timeout = 15, arg_api_interval = 1.0, arg_cdn_interval = 0.6, arg_max_retries = 5,
      arg_backoff = 1.8, arg_jitter = 0.3\<rparr>"

definition abbey_road_dir :: album_dir where
  "abbey_road_dir =
     \<lparr>library = ''/music'', artist_name = ''The Beatles'', album_name = ''Abbey Road''\<rparr>"

text \<open>
  A search result that matches the folder \<open>The Beatles/Abbey Road\<close>, the response that
  carries a list of results, and four libraries under \<open>/music\<close>: one whose album folder
  has no cover, one whose album folder has a cover, one with a second album folder
  \<open>Help\<close>, and one whose album folder has a cover and may be listed but not searched.
\<close>

definition abbey_road_record :: catalog_record where
  "abbey_road_record =
     \<lparr>collectionType = Some ''Album'', wrapperType = Some ''collection'',
      collectionName = Some ''Abbey Road'', artistName = Some ''The Beatles'',
      artworkUrl100 = Some ''https://is1-ssl.mzstatic.com/image/thumb/e/100x100bb.jpg''\<rparr>"

definition results_response :: "catalog_record list \<Rightarrow> response" where
  "results_response rs =
     \<lparr>status_code = 200, retry_after_header = Absent, content_type = Some ''text/javascript'',
      json_results = Inr rs, chunks = [], stream_error = None\<rparr>"

definition bare_library :: fsnode where
  "bare_library = Dir [(''The Beatles'', Dir [(''Abbey Road'', Dir [(''01 Come Together.m4a'', File ''audio'')])])]"

definition covered_library :: fsnode where
  "covered_library =
     Dir [(''The Beatles'',
           Dir [(''Abbey Road'',
                 Dir [(''01 Come Together.m4a'', File ''audio''), (''cover.jpg'', File ''image'')])])]"

definition two_album_library :: fsnode where
  "two_album_library =
     Dir [(''The Beatles'',
           Dir [(''Help'', Dir [(''01 Help.m4a'', File ''audio'')]),
                (''Abbey Road'',
                 Dir [(''01 Come Together.m4a'', File ''audio''), (''cover.jpg'', File ''image'')])])]"

definition locked_library :: fsnode where
  "locked_library =
     Dir [(''The Beatles'',
           Dir [(''Abbey Road'',
                 Restricted \<lparr>readable = True, writable = False, searchable = False\<rparr>
                   [(''01 Come Together.m4a'', File ''audio''), (''cover.jpg'', File ''image'')])])]"

section \<open>Proofs: floating-point numbers\<close>

lemma binade_up_small: "0 < n \<Longrightarrow> x < 2 \<Longrightarrow> binade_up n x = 0"
  by (cases n) auto




lemma round_double_one: "round_double 1 = 1"
proof -
  have "binade 1 = 0" by (simp add: binade_def binade_up_small)
  then have u: "ulp 1 = 1 / 2 ^ 52" by (simp add: ulp_def)
  have "round_half_even (2 ^ 52) = 2 ^ 52"
  proof -
    have "\<lfloor>(2::real) ^ 52\<rfloor> = 2 ^ 52" by (metis floor_of_int of_int_numeral of_int_power)
    then show ?thesis by (simp add: round_half_even_def Let_def)
  qed
  then show ?thesis by (simp add: round_double_def u)
qed




section \<open>Proofs: artwork URL expander\<close>

lemma lower_char_cases: "lower_char c = c \<or> c \<in> set ''ABCDEFGHIJKLMNOPQRSTUVWXYZ''"
  unfolding lower_char_def by (simp split: option.splits if_splits)

lemma is_digit_not_slash: "is_digit c \<Longrightarrow> c \<noteq> CHR ''/''"
  by (auto simp: is_digit_def)

lemma lower_char_x: "lower_char x = CHR ''x'' \<longleftrightarrow> x = CHR ''x'' \<or> x = CHR ''X''"
  unfolding lower_char_def by (simp split: option.splits if_splits)

lemma lower_char_b: "lower_char x = CHR ''b'' \<longleftrightarrow> x = CHR ''b'' \<or> x = CHR ''B''"
  unfolding lower_char_def by (simp split: option.splits if_splits)

lemma lower_char_j: "lower_char x = CHR ''j'' \<longleftrightarrow> x = CHR ''j'' \<or> x = CHR ''J''"
  unfolding lower_char_def by (simp split: option.splits if_splits)

lemma lower_char_p: "lower_char x = CHR ''p'' \<longleftrightarrow> x = CHR ''p'' \<or> x = CHR ''P''"
  unfolding lower_char_def by (simp split: option.splits if_splits)

lemma lower_char_g: "lower_char x = CHR ''g'' \<longleftrightarrow> x = CHR ''g'' \<or> x = CHR ''G''"
  unfolding lower_char_def by (simp split: option.splits if_splits)

lemma lower_char_n: "lower_char x = CHR ''n'' \<longleftrightarrow> x = CHR ''n'' \<or> x = CHR ''N''"
  unfolding lower_char_def by (simp split: option.splits if_splits)

lemma lower_eq_Cons: "lower s = c # t \<longleftrightarrow> (\<exists>x r. s = x # r \<and> lower_char x = c \<and> lower r = t)"
  by (cases s) (auto simp: lower_def)

lemma lower_eq_Nil: "lower s = [] \<longleftrightarrow> s = []"
  by (simp add: lower_def)

lemmas lower_letters = lower_char_x lower_char_b lower_char_j lower_char_p lower_char_g lower_char_n

lemma takeWhile_digits:
  "list_all is_digit ds \<Longrightarrow> \<not> is_digit c \<Longrightarrow> takeWhile is_digit (ds @ c # r) = ds"
  by (induction ds) auto

lemma dropWhile_digits:
  "list_all is_digit ds \<Longrightarrow> \<not> is_digit c \<Longrightarrow> dropWhile is_digit (ds @ c # r) = c # r"
  by (induction ds) auto

lemma match_size_segment_complete:
  assumes d1: "list_all is_digit d1" "2 \<le> length d1" "length d1 \<le> 5"
    and x: "lower_char x = CHR ''x''"
    and d2: "list_all is_digit d2" "2 \<le> length d2" "length d2 \<le> 5"
    and bb: "bb = [] \<or> lower bb = ''bb''"
    and q: "q = [] \<or> (\<exists>n. q = CHR ''-'' # n \<and> n \<noteq> [] \<and> list_all is_digit n)"
    and ext: "lower ext = ''jpg'' \<or> lower ext = ''png''"
  shows "match_size_segment (d1 @ x # d2 @ bb @ q @ CHR ''.'' # ext) = Some (d1 @ x # d2, bb, q, ext)"
proof -
  let ?r5 = "CHR ''.'' # ext"
  let ?r4 = "q @ ?r5"
  let ?r3 = "bb @ ?r4"
  have nx: "\<not> is_digit x" using x by (auto simp: lower_letters is_digit_def)
  have t1: "takeWhile is_digit (d1 @ x # d2 @ ?r3) = d1"
    and r1: "dropWhile is_digit (d1 @ x # d2 @ ?r3) = x # d2 @ ?r3"
    using d1(1) nx by (simp_all add: takeWhile_digits dropWhile_digits)
  obtain c3 t3 where r3: "?r3 = c3 # t3" and c3: "\<not> is_digit c3"
    using bb q by (cases bb; cases q) (auto simp: lower_eq_Cons lower_letters is_digit_def)
  have t2: "takeWhile is_digit (d2 @ ?r3) = d2"
    and r2: "dropWhile is_digit (d2 @ ?r3) = ?r3"
    unfolding r3 using d2(1) c3 by (simp_all add: takeWhile_digits dropWhile_digits)
  have bb': "(if lower (take 2 ?r3) = ''bb'' then take 2 ?r3 else []) = bb"
  proof (cases "bb = []")
    case True
    with q show ?thesis by (auto simp: lower_eq_Cons lower_letters)
  next
    case False
    with bb have "lower bb = ''bb''" by simp
    then have "length bb = 2" by (auto simp: lower_eq_Cons lower_eq_Nil)
    with \<open>lower bb = ''bb''\<close> show ?thesis by simp
  qed
  have q': "(case ?r4 of [] \<Rightarrow> [] | c # t \<Rightarrow>
               if c = CHR ''-'' \<and> takeWhile is_digit t \<noteq> [] then c # takeWhile is_digit t else []) = q"
  proof (cases "q = []")
    case True
    then show ?thesis by simp
  next
    case False
    with q obtain n where n: "q = CHR ''-'' # n" "n \<noteq> []" "list_all is_digit n" by auto
    have "takeWhile is_digit (n @ ?r5) = n"
      using n(3) by (simp add: takeWhile_digits is_digit_def)
    with n show ?thesis by simp
  qed
  have db: "drop (length bb) ?r3 = ?r4" and dq: "drop (length q) ?r4 = ?r5"
    by simp_all
  have l1: "\<not> (length d1 < 2 \<or> 5 < length d1)" and l2: "\<not> (length d2 < 2 \<or> 5 < length d2)"
    using d1 d2 by auto
  have e: "(CHR ''.'' = CHR ''.'' \<and> (lower ext = ''jpg'' \<or> lower ext = ''png'')) = True"
    using ext by simp
  have xx: "(lower_char x \<noteq> CHR ''x'') = False" using x by simp
  show ?thesis
    by (simp only: match_size_segment_def Let_def t1 r1 list.case l1 l2 xx if_False t2 r2 bb' db q' dq e if_True)
qed





lemma rsplit_seg:
  assumes "CHR ''/'' \<notin> set seg"
  shows "rev (takeWhile (\<lambda>c. c \<noteq> CHR ''/'') (rev (p @ CHR ''/'' # seg))) = seg"
proof -
  have "takeWhile (\<lambda>c. c \<noteq> CHR ''/'') (rev seg @ CHR ''/'' # rev p) = rev seg"
    using assms by (intro takeWhile_tail [THEN trans]) (auto simp: takeWhile_eq_all_conv)
  then show ?thesis by simp
qed

lemma lower_char_eq_slash: "lower_char c = CHR ''/'' \<longleftrightarrow> c = CHR ''/''"
  unfolding lower_char_def by (simp split: option.splits if_splits)

lemma digits_no_slash: "list_all is_digit ds \<Longrightarrow> CHR ''/'' \<notin> set ds"
  by (auto simp: list_all_iff dest: is_digit_not_slash)

lemma lower_no_slash: "CHR ''/'' \<notin> set (lower s) \<Longrightarrow> CHR ''/'' \<notin> set s"
proof
  assume a: "CHR ''/'' \<notin> set (lower s)" and "CHR ''/'' \<in> set s"
  then have "lower_char (CHR ''/'') \<in> set (lower s)" unfolding lower_def by simp
  moreover have "lower_char (CHR ''/'') = CHR ''/''" by (simp add: lower_char_def)
  ultimately show False using a by simp
qed

lemma search_size_token_complete:
  assumes d1: "list_all is_digit d1" "2 \<le> length d1" "length d1 \<le> 5"
    and x: "lower_char x = CHR ''x''"
    and d2: "list_all is_digit d2" "2 \<le> length d2" "length d2 \<le> 5"
    and bb: "bb = [] \<or> lower bb = ''bb''"
    and q: "q = [] \<or> (\<exists>n. q = CHR ''-'' # n \<and> n \<noteq> [] \<and> list_all is_digit n)"
    and ext: "lower ext = ''jpg'' \<or> lower ext = ''png''"
  shows "search_size_token (p @ CHR ''/'' # d1 @ x # d2 @ bb @ q @ CHR ''.'' # ext)
           = Some (p, d1 @ x # d2, bb, q, ext)"
proof -
  let ?seg = "d1 @ x # d2 @ bb @ q @ CHR ''.'' # ext"
  let ?s = "p @ CHR ''/'' # ?seg"
  have extne: "ext \<noteq> []" and lastext: "last ext \<noteq> CHR 0x0A"
    using ext by (auto simp: lower_eq_Cons lower_eq_Nil lower_letters)
  then have "last ?s = last ext" by simp
  with lastext have body: "(if ?s \<noteq> [] \<and> last ?s = CHR 0x0A then butlast ?s else ?s) = ?s"
    by simp
  have "CHR ''/'' \<notin> set bb"
  proof (cases "bb = []")
    case False
    with bb have "CHR ''/'' \<notin> set (lower bb)" by simp
    then show ?thesis by (rule lower_no_slash)
  qed simp
  moreover have "CHR ''/'' \<notin> set q" using q by (auto dest: digits_no_slash)
  moreover have "CHR ''/'' \<notin> set ext"
  proof -
    from ext have "CHR ''/'' \<notin> set (lower ext)" by auto
    then show ?thesis by (rule lower_no_slash)
  qed
  moreover have "x \<noteq> CHR ''/''" using x by (auto simp: lower_letters)
  ultimately have ns: "CHR ''/'' \<notin> set ?seg"
    using d1(1) d2(1) by (auto dest: digits_no_slash)
  have seg: "rev (takeWhile (\<lambda>c. c \<noteq> CHR ''/'') (rev ?s)) = ?seg"
    by (rule rsplit_seg [OF ns])
  have pre: "take (length ?s - length ?seg - 1) ?s = p" by simp
  have m: "match_size_segment ?seg = Some (d1 @ x # d2, bb, q, ext)"
    by (rule match_size_segment_complete [OF assms])
  have sl: "(CHR ''/'' \<notin> set ?s) = False" by simp
  show ?thesis
    by (simp only: search_size_token_def Let_def body sl if_False seg pre m option.case)
qed









lemma endswith_append: "endswith (p @ t) t"
  by (simp add: endswith_def)

lemma PROBE_SIZES_descending:
  "sorted_wrt (\<lambda>a b. size_width b < size_width a \<and> size_height b < size_height a) PROBE_SIZES"
  by (simp add: PROBE_SIZES_def size_width_def size_height_def nat_of_digits_def is_digit_def)

text \<open>
  Claim C5, as the code has it: for every input URL ending in
  \<open>/<2 to 5 digits>x<2 to 5 digits>bb.jpg\<close>, \<open>build_upscaled_urls\<close> replaces the size by each
  probe size in order and keeps what is before the slash, the \<open>bb\<close> marker, the (empty)
  quality suffix and the extension in every element; the first element ends in
  \<open>/100000x100000bb.jpg\<close>, the last in \<open>/600x600bb.jpg\<close>, and the widths and the heights of
  the probe sizes are strictly descending.
\<close>

theorem build_upscaled_urls_bb_jpg:
  assumes "list_all is_digit w" "2 \<le> length w" "length w \<le> 5"
    and "list_all is_digit h" "2 \<le> length h" "length h \<le> 5"
  shows "build_upscaled_urls (p @ ''/'' @ w @ ''x'' @ h @ ''bb.jpg'')
           = map (\<lambda>sz. p @ ''/'' @ sz @ ''bb.jpg'') PROBE_SIZES \<and>
         endswith (hd (build_upscaled_urls (p @ ''/'' @ w @ ''x'' @ h @ ''bb.jpg'')))
           ''/100000x100000bb.jpg'' \<and>
         endswith (last (build_upscaled_urls (p @ ''/'' @ w @ ''x'' @ h @ ''bb.jpg'')))
           ''/600x600bb.jpg'' \<and>
         sorted_wrt (\<lambda>a b. size_width b < size_width a \<and> size_height b < size_height a)
           PROBE_SIZES"
proof -
  have "search_size_token (p @ CHR ''/'' # w @ CHR ''x'' # h @ ''bb'' @ [] @ CHR ''.'' # ''jpg'')
          = Some (p, w @ CHR ''x'' # h, ''bb'', [], ''jpg'')"
    by (rule search_size_token_complete [OF assms(1-3) _ assms(4-6)])
       (simp_all add: lower_def lower_char_def)
  then have s: "search_size_token (p @ ''/'' @ w @ ''x'' @ h @ ''bb.jpg'')
          = Some (p, w @ CHR ''x'' # h, ''bb'', [], ''jpg'')"
    by simp
  have eq: "build_upscaled_urls (p @ ''/'' @ w @ ''x'' @ h @ ''bb.jpg'')
           = map (\<lambda>sz. p @ ''/'' @ sz @ ''bb.jpg'') PROBE_SIZES"
    unfolding build_upscaled_urls_def s by simp
  have "hd (map (\<lambda>sz. p @ ''/'' @ sz @ ''bb.jpg'') PROBE_SIZES) = p @ ''/100000x100000bb.jpg''"
    and "last (map (\<lambda>sz. p @ ''/'' @ sz @ ''bb.jpg'') PROBE_SIZES) = p @ ''/600x600bb.jpg''"
    by (simp_all add: PROBE_SIZES_def)
  with eq show ?thesis
    by (simp only: endswith_append PROBE_SIZES_descending simp_thms)
qed

text \<open>The theorem at the URL of a 100 by 100 thumbnail.\<close>

theorem build_upscaled_urls_bb_jpg_witness:
  "list_all is_digit ''100'' \<and>
   build_upscaled_urls ''https://a.mzstatic.com/t/100x100bb.jpg''
     = map (\<lambda>sz. ''https://a.mzstatic.com/t'' @ ''/'' @ sz @ ''bb.jpg'') PROBE_SIZES \<and>
   endswith (hd (build_upscaled_urls ''https://a.mzstatic.com/t/100x100bb.jpg''))
     ''/100000x100000bb.jpg'' \<and>
   endswith (last (build_upscaled_urls ''https://a.mzstatic.com/t/100x100bb.jpg''))
     ''/600x600bb.jpg''"
proof -
  have d: "list_all is_digit ''100''" and l: "2 \<le> length ''100''" "length ''100'' \<le> 5"
    by (simp_all add: is_digit_def)
  have eq: "''https://a.mzstatic.com/t/100x100bb.jpg''
              = ''https://a.mzstatic.com/t'' @ ''/'' @ ''100'' @ ''x'' @ ''100'' @ ''bb.jpg''"
    by simp
  show ?thesis
    unfolding eq
    using build_upscaled_urls_bb_jpg [OF d l d l, of "''https://a.mzstatic.com/t''"] d
    by blast
qed

text \<open>
  Claim C5 as written covers every number of digits. A size of six digits, such as the
  one of the first candidate itself, is outside \<open>\d{2,5}\<close>: the fallback attaches the size
  blocks and the \<open>bb\<close> marker is not in the last segment.
\<close>

theorem build_upscaled_urls_six_digits_counterexample:
  "\<not> endswith (hd (build_upscaled_urls ''https://a.mzstatic.com/t/100000x100000bb.jpg''))
       ''/100000x100000bb.jpg''"
  by code_simp

section \<open>Proofs: library scanner\<close>







section \<open>Proofs: text matcher\<close>

lemma clean_run_pos: "\<not> popular s (s ! i) \<Longrightarrow> 0 < clean_run s i"
  by (cases i) simp_all

lemma clean_run_pred:
  "\<not> popular s (s ! i) \<Longrightarrow> 0 < i \<Longrightarrow> clean_run s i = Suc (clean_run s (i - 1))"
  by (cases i) simp_all

lemma scan_row_diag:
  assumes "scan_row j2len i 0 (length s) js ((bi, bj, bs), new) = ((bi', bj', bs'), new')"
    and "sorted_wrt (<) js" and "\<forall>j \<in> set js. j < length s \<and> s ! j = s ! i"
    and np: "\<not> popular s (s ! i)"
    and prevb: "\<forall>j l. j2len j = Some l \<longrightarrow> 0 < i \<and> l \<le> clean_run s (i - 1) \<and> l \<le> clean_run s j"
    and prevd: "0 < i \<longrightarrow>
          j2len (i - 1) = (if clean_run s (i - 1) = 0 then None else Some (clean_run s (i - 1)))"
    and "bi = bj"
    and "\<forall>i' < i. clean_run s i' \<le> bs"
    and "i \<in> set js \<or> (clean_run s i \<le> bs \<and> new i = Some (clean_run s i))"
    and "\<forall>j l. new j = Some l \<longrightarrow> l \<le> clean_run s i \<and> l \<le> clean_run s j"
  shows "bi' = bj' \<and> (\<forall>i' \<le> i. clean_run s i' \<le> bs') \<and> new' i = Some (clean_run s i) \<and>
         (\<forall>j l. new' j = Some l \<longrightarrow> l \<le> clean_run s i \<and> l \<le> clean_run s j)"
  using assms(1-3,7-10)
proof (induction js arbitrary: bi bj bs new)
  case Nil
  then show ?case by (auto simp: le_less)
next
  case (Cons j js)
  define k where "k = (case (if j = 0 then None else j2len (j - 1)) of None \<Rightarrow> 0 | Some l \<Rightarrow> l) + 1"
  have j: "j < length s" "s ! j = s ! i" using Cons.prems(3) by simp_all
  have npj: "\<not> popular s (s ! j)" using np j by simp
  have run: "scan_row j2len i 0 (length s) js
             (if bs < k then (Suc i - k, Suc j - k, k) else (bi, bj, bs), new(j \<mapsto> k))
               = ((bi', bj', bs'), new')"
  proof -
    have c: "(j < 0) = False" "(length s \<le> j) = False" using j(1) by simp_all
    show ?thesis
      using Cons.prems(1) unfolding k_def by (simp only: scan_row.simps c if_False Let_def)
  qed
  have ki: "k \<le> clean_run s i" and kj: "k \<le> clean_run s j"
  proof -
    show "k \<le> clean_run s i"
    proof (cases "if j = 0 then None else j2len (j - 1)")
      case None
      then show ?thesis using clean_run_pos [OF np] by (simp add: k_def)
    next
      case (Some l)
      then have "j2len (j - 1) = Some l" by (auto split: if_splits)
      with prevb have "0 < i" "l \<le> clean_run s (i - 1)" by blast+
      with Some show ?thesis using clean_run_pred [OF np] by (simp add: k_def)
    qed
    show "k \<le> clean_run s j"
    proof (cases "if j = 0 then None else j2len (j - 1)")
      case None
      then show ?thesis using clean_run_pos [OF npj] by (simp add: k_def)
    next
      case (Some l)
      then have "j2len (j - 1) = Some l" "0 < j" by (auto split: if_splits)
      with prevb have "l \<le> clean_run s (j - 1)" by blast
      with Some \<open>0 < j\<close> show ?thesis using clean_run_pred [OF npj] by (simp add: k_def)
    qed
  qed
  have kd: "k = clean_run s i" if "j = i"
  proof (cases "i = 0")
    case True
    with that np show ?thesis by (simp add: k_def)
  next
    case False
    then have "j2len (i - 1) = (if clean_run s (i - 1) = 0 then None else Some (clean_run s (i - 1)))"
      using prevd by simp
    with False that show ?thesis using clean_run_pred [OF np] by (simp add: k_def)
  qed
  have tail: "\<forall>j' \<in> set js. j < j'" "sorted_wrt (<) js"
    using Cons.prems(2) by simp_all
  have upd: "bs < k \<Longrightarrow> j = i"
  proof (rule ccontr)
    assume lt: "bs < k" and ne: "j \<noteq> i"
    show False
    proof (cases "j < i")
      case True
      with Cons.prems(5) have "clean_run s j \<le> bs" by simp
      with kj lt show False by simp
    next
      case False
      with ne have "i < j" by simp
      with tail(1) have "i \<notin> set (j # js)" by auto
      with Cons.prems(6) have "clean_run s i \<le> bs" by simp
      with ki lt show False by simp
    qed
  qed
  let ?bs = "if bs < k then k else bs"
  obtain ci cj where st:
    "(if bs < k then (Suc i - k, Suc j - k, k) else (bi, bj, bs)) = (ci, cj, ?bs)" "ci = cj"
    using upd Cons.prems(4) by (cases "bs < k") auto
  have a2: "\<forall>j' \<in> set js. j' < length s \<and> s ! j' = s ! i" using Cons.prems(3) by simp
  have a4: "\<forall>i' < i. clean_run s i' \<le> ?bs" using Cons.prems(5) by auto
  have a5: "i \<in> set js \<or> (clean_run s i \<le> ?bs \<and> (new(j \<mapsto> k)) i = Some (clean_run s i))"
  proof (cases "j = i")
    case True
    with kd show ?thesis by auto
  next
    case False
    with Cons.prems(6) show ?thesis by auto
  qed
  have a6: "\<forall>j' l. (new(j \<mapsto> k)) j' = Some l \<longrightarrow> l \<le> clean_run s i \<and> l \<le> clean_run s j'"
    using Cons.prems(7) ki kj by auto
  from run st(1) have run': "scan_row j2len i 0 (length s) js ((ci, cj, ?bs), new(j \<mapsto> k))
               = ((bi', bj', bs'), new')" by simp
  show ?case by (rule Cons.IH [OF run' tail(2) a2 st(2) a4 a5 a6])
qed


lemma scan_rows_diag:
  assumes "scan_rows s s 0 (length s) [m..<length s] ((bi, bj, bs), j2len) = ((bi', bj', bs'), j2len')"
    and "\<forall>j l. j2len j = Some l \<longrightarrow> 0 < m \<and> l \<le> clean_run s (m - 1) \<and> l \<le> clean_run s j"
    and "0 < m \<longrightarrow>
          j2len (m - 1) = (if clean_run s (m - 1) = 0 then None else Some (clean_run s (m - 1)))"
    and "bi = bj"
    and "\<forall>i' < m. clean_run s i' \<le> bs"
  shows "bi' = bj'"
  using assms
proof (induction "length s - m" arbitrary: m bi bj bs j2len)
  case 0
  then show ?case by simp
next
  case (Suc n)
  then have lt: "m < length s" by simp
  then have upt: "[m..<length s] = m # [Suc m..<length s]" by (simp add: upt_conv_Cons)
  have n: "n = length s - Suc m" using Suc.hyps(2) by simp
  show ?case
  proof (cases "popular s (s ! m)")
    case True
    then have run0: "clean_run s m = 0" by (cases m) simp_all
    from Suc.prems(1) True have run:
      "scan_rows s s 0 (length s) [Suc m..<length s] ((bi, bj, bs), Map.empty) = ((bi', bj', bs'), j2len')"
      unfolding upt by (simp add: b2j_def)
    have b: "\<forall>j l. Map.empty j = Some l \<longrightarrow> 0 < Suc m \<and> l \<le> clean_run s (Suc m - 1) \<and> l \<le> clean_run s j"
      by simp
    have d: "0 < Suc m \<longrightarrow> Map.empty (Suc m - 1) =
        (if clean_run s (Suc m - 1) = 0 then None else Some (clean_run s (Suc m - 1)))"
      using run0 by simp
    have e: "\<forall>i' < Suc m. clean_run s i' \<le> bs"
      using Suc.prems(5) run0 by (auto simp: less_Suc_eq)
    show ?thesis by (rule Suc.hyps(1) [OF n run b d Suc.prems(4) e])
  next
    case False
    let ?js = "filter (\<lambda>j. s ! j = s ! m) [0..<length s]"
    obtain ci cj cs new where row:
      "scan_row j2len m 0 (length s) ?js ((bi, bj, bs), Map.empty) = ((ci, cj, cs), new)"
      by (cases "scan_row j2len m 0 (length s) ?js ((bi, bj, bs), Map.empty)") auto
    have s1: "sorted_wrt (<) ?js" by (simp add: sorted_wrt_filter)
    have s2: "\<forall>j \<in> set ?js. j < length s \<and> s ! j = s ! m" by simp
    have s3: "m \<in> set ?js \<or> (clean_run s m \<le> bs \<and> Map.empty m = Some (clean_run s m))"
      using lt by simp
    have s4: "\<forall>j l. Map.empty j = Some l \<longrightarrow> l \<le> clean_run s m \<and> l \<le> clean_run s j"
      by simp
    from scan_row_diag [OF row s1 s2 False Suc.prems(2) Suc.prems(3) Suc.prems(4) Suc.prems(5) s3 s4]
    have r: "ci = cj" "\<forall>i' \<le> m. clean_run s i' \<le> cs" "new m = Some (clean_run s m)"
      "\<forall>j l. new j = Some l \<longrightarrow> l \<le> clean_run s m \<and> l \<le> clean_run s j"
      by simp_all
    from Suc.prems(1) False have run:
      "scan_rows s s 0 (length s) [Suc m..<length s] ((ci, cj, cs), new) = ((bi', bj', bs'), j2len')"
      unfolding upt by (simp add: b2j_def row)
    have b: "\<forall>j l. new j = Some l \<longrightarrow> 0 < Suc m \<and> l \<le> clean_run s (Suc m - 1) \<and> l \<le> clean_run s j"
      using r(4) by simp
    have d: "0 < Suc m \<longrightarrow> new (Suc m - 1) =
        (if clean_run s (Suc m - 1) = 0 then None else Some (clean_run s (Suc m - 1)))"
      using r(3) clean_run_pos [OF False] by simp
    have e: "\<forall>i' < Suc m. clean_run s i' \<le> cs"
      using r(2) by (simp add: less_Suc_eq_le)
    show ?thesis by (rule Suc.hyps(1) [OF n run b d r(1) e])
  qed
qed

lemma extend_left_same: "extend_left s s 0 0 (d, d, k) = (0, 0, d + k)"
proof (induction d arbitrary: k)
  case 0
  show ?case by (simp add: extend_left.simps [of s s 0 0 0 0 k])
next
  case (Suc d)
  have "extend_left s s 0 0 (Suc d, Suc d, k) = extend_left s s 0 0 (d, d, k + 1)"
    by (simp add: extend_left.simps [of s s 0 0 "Suc d" "Suc d" k])
  with Suc [of "k + 1"] show ?case by simp
qed

lemma extend_right_same: "k \<le> length s \<Longrightarrow> extend_right s s (length s) (length s) (0, 0, k) = (0, 0, length s)"
proof (induction "length s - k" arbitrary: k)
  case 0
  then have k: "k = length s" by simp
  show ?case unfolding k by (subst extend_right.simps) simp
next
  case (Suc n)
  then have "extend_right s s (length s) (length s) (0, 0, k)
               = extend_right s s (length s) (length s) (0, 0, k + 1)"
    by (simp add: extend_right.simps [of s s "length s" "length s" 0 0 k])
  moreover have "extend_right s s (length s) (length s) (0, 0, k + 1) = (0, 0, length s)"
    using Suc by (intro Suc.hyps(1)) simp_all
  ultimately show ?case by simp
qed

lemma find_longest_match_same:
  "find_longest_match s s 0 (length s) 0 (length s) = (0, 0, length s)"
proof -
  obtain si sj ss m where scan:
    "scan_rows s s 0 (length s) [0..<length s] ((0, 0, 0), Map.empty) = ((si, sj, ss), m)"
    by (cases "scan_rows s s 0 (length s) [0..<length s] ((0, 0, 0), Map.empty)") auto
  have "si = sj"
    by (rule scan_rows_diag [OF scan]) simp_all
  moreover from scan_rows_bounds [OF scan, of 0]
  have "si + ss \<le> length s \<or> (si = 0 \<and> ss = 0)" by simp
  then have "si + ss \<le> length s" by auto
  ultimately show ?thesis
    by (simp add: find_longest_match_def scan extend_left_same extend_right_same)
qed

lemma get_matching_blocks_same:
  "sum_list (map (\<lambda>(i, j, k). k) (get_matching_blocks s s)) = length s"
proof (cases "length s = 0")
  case True
  then show ?thesis
    using find_longest_match_same [of s] by (simp add: get_matching_blocks_def)
next
  case False
  then have "collect_blocks s s [(0, length s, 0, length s)] [] = [(0, 0, length s)]"
    using find_longest_match_same [of s] by simp
  with False show ?thesis by (simp add: get_matching_blocks_def)
qed

lemma ratio_same: "ratio s s = 1"
proof (cases "s = []")
  case True
  then show ?thesis by (simp add: ratio_def Let_def)
next
  case False
  have "sum_list (map (\<lambda>(i, j, k). k) (get_matching_blocks s s)) = length s"
    by (simp add: get_matching_blocks_same)
  moreover have "2 * real (length s) / real (length s + length s) = 1"
    using False by simp
  ultimately show ?thesis
    using False by (simp only: ratio_def Let_def round_double_one) simp
qed

lemma similarity_same: "similarity a a = 1"
  by (simp add: similarity_def ratio_same)


section \<open>Proofs: match selector\<close>










section \<open>Proofs: catalog client and CDN prober\<close>

lemma same_env_refl [simp]: "same_env w w"
  by (simp add: same_env_def)



lemma monotonic_run:
  "monotonic w = (Inr (clock w (n_clock w)), w\<lparr>n_clock := Suc (n_clock w)\<rparr>)"
  by (simp add: monotonic_def)









section \<open>Proofs: retries\<close>

text \<open>
  Claim C1 at searches whose attempts all fail with transient errors. Five attempts that
  all meet HTTP 403 store no exception, and the search returns the empty result list
  where the claim has the last transient error raised. Of five attempts of which the first
  meets a timeout and the others HTTP 403, the timeout of the first attempt is raised,
  not an error of the last attempt.
\<close>

theorem api_search_all_403_returns_empty:
  "fst (api_search_with_retries abbey_road_params 15 1 5 1.8 0.3
          (calm_world (\<lambda>n. Responds (status_response 403 Absent)) (Dir [])))
     = Inr [] \<and>
   fst (api_search_with_retries abbey_road_params 15 1 5 1.8 0.3
          (calm_world (\<lambda>n. if n = 0 then Raises (Exn Timeout ''Read timed out'')
                            else Responds (status_response 403 Absent)) (Dir [])))
     = Inl (Exn Timeout ''Read timed out'')"
  by code_simp




end
